theory Spec2Isabelle
  imports Complex_Main "HOL-Library.AList"
begin

section \<open>Refund decision engine: data model (app/schemas.py)\<close>

text \<open>
  Python floats are modelled by exact rationals. Every score the engine adds up is a small
  integer, which a float holds exactly; the confidence and the rendered percentages are the
  values of the idealised arithmetic. Non-finite floats (NaN, infinities) are outside the model.
  Python's unbounded \<open>int\<close> is \<open>int\<close>; the one place where the interpreter bounds it, the
  conversion of an integer to its decimal string, is modelled with its error.
\<close>

datatype ComplaintType =
    LATE_DELIVERY | WRONG_ORDER | MISSING_ITEMS | QUALITY_ISSUE | DAMAGED_FOOD | NEVER_ARRIVED

datatype RefundAction = REFUND | PARTIAL | REJECT | MANUAL_REVIEW

record CaseData =
  case_id :: string
  order_value :: rat
  delivery_delay_min :: int
  restaurant_error_rate :: rat
  customer_refund_rate :: rat
  complaint_type :: ComplaintType
  photo_provided :: bool
  is_demo :: bool
  complaint_text :: "string option"

record DecisionReason =
  factor :: string
  explanation :: string
  impact :: rat

text \<open>
  The signal bundle is the dictionary returned by \<open>extract_text_features\<close>; that function
  only returns dictionaries carrying all ten keys (the fallback, or a reply that passed the
  required-fields check), so the bundle is a record. A flag is the truth value Python gives
  the stored entry.
\<close>

record TextFeatures =
  food_quality_issue :: bool
  missing_item :: bool
  wrong_item :: bool
  temperature_problem :: bool
  packaging_problem :: bool
  delivery_spill :: bool
  vague_complaint :: bool
  customer_aggression :: rat
  evidence_strength :: rat
  confidence :: rat

record RefundSuggestion =
  action :: RefundAction
  confidence :: rat
  score :: rat
  reasons :: "DecisionReason list"

text \<open>
  The exceptions the engine can raise: pydantic's \<open>ValidationError\<close> and the
  interpreter's \<open>ValueError\<close>, each with its message.
\<close>

datatype py_exception = ValidationError string | ValueError string

text \<open>
  Constructing a \<open>RefundSuggestion\<close> runs the pydantic range check
  \<open>confidence: float = Field(ge=0, le=1)\<close>, which raises when the value is out of range.
\<close>

definition RefundSuggestion_init ::
  "RefundAction \<Rightarrow> rat \<Rightarrow> rat \<Rightarrow> DecisionReason list \<Rightarrow> py_exception + RefundSuggestion" where
  "RefundSuggestion_init a conf sc rs =
     (if 0 \<le> conf \<and> conf \<le> 1
      then Inr \<lparr>action = a, confidence = conf, score = sc, reasons = rs\<rparr>
      else Inl (ValidationError ''confidence''))"

section \<open>Python number formatting and rounding\<close>

fun digits_nat :: "nat \<Rightarrow> string" where
  "digits_nat n =
     (if n < 10 then [''0123456789'' ! n]
      else digits_nat (n div 10) @ [''0123456789'' ! (n mod 10)])"

declare digits_nat.simps [simp del]

text \<open>
  CPython's default limit on the number of decimal digits of an integer that is converted to
  a string, \<open>sys.get_int_max_str_digits()\<close>.
\<close>

definition int_max_str_digits :: nat where
  "int_max_str_digits = 4300"

definition exceeds_limit :: py_exception where
  "exceeds_limit =
     ValueError (''Exceeds the limit (4300 digits) for integer string conversion; '' @
                 ''use sys.set_int_max_str_digits() to increase the limit'')"

text \<open>
  \<open>str(i)\<close> of an integer, as an f-string field \<open>{delay}\<close> renders it. The conversion
  raises \<open>ValueError\<close> when the integer, its sign apart, has more digits than the limit.
\<close>

definition py_str_int :: "int \<Rightarrow> py_exception + string" where
  "py_str_int i =
     (let ds = digits_nat (nat \<bar>i\<bar>)
      in if length ds > int_max_str_digits then Inl exceeds_limit
         else Inr (if i < 0 then ''-'' @ ds else ds))"

text \<open>Rounding to the nearest integer, ties to the even one (Python's \<open>round\<close> and \<open>format\<close>).\<close>

definition round_half_even :: "rat \<Rightarrow> int" where
  "round_half_even x =
     (let f = \<lfloor>x\<rfloor>; d = x - of_int f
      in if d < 1 / 2 then f
         else if 1 / 2 < d then f + 1
         else if even f then f else f + 1)"

text \<open>\<open>round(x, 2)\<close>.\<close>

definition py_round2 :: "rat \<Rightarrow> rat" where
  "py_round2 x = of_int (round_half_even (x * 100)) / 100"

text \<open>The format specification \<open>.<prec>f\<close>.\<close>

definition py_format_f :: "nat \<Rightarrow> rat \<Rightarrow> string" where
  "py_format_f prec x =
     (let n = nat (round_half_even (\<bar>x\<bar> * 10 ^ prec));
          ip = n div 10 ^ prec;
          fp = digits_nat (n mod 10 ^ prec)
      in (if x < 0 then ''-'' else '''') @ digits_nat ip @
         (if prec = 0 then '''' else ''.'' @ replicate (prec - length fp) CHR ''0'' @ fp))"

text \<open>The format specification \<open>.<prec>%\<close>: the value times 100, in fixed notation, then a percent sign.\<close>

definition py_format_pct :: "nat \<Rightarrow> rat \<Rightarrow> string" where
  "py_format_pct prec x = py_format_f prec (x * 100) @ ''%''"

section \<open>The rule evaluators (app/engine.py)\<close>

definition REFUND_THRESHOLD :: rat where "REFUND_THRESHOLD = 70"
definition PARTIAL_THRESHOLD :: rat where "PARTIAL_THRESHOLD = 40"
definition MANUAL_REVIEW_THRESHOLD_HIGH :: rat where "MANUAL_REVIEW_THRESHOLD_HIGH = 65"
definition MANUAL_REVIEW_THRESHOLD_LOW :: rat where "MANUAL_REVIEW_THRESHOLD_LOW = 45"

text \<open>
  \<open>severity_map\<close> and \<open>explanations\<close>: every member of the enumeration has an entry, so the
  defaults of the two \<open>.get\<close> calls are never taken.
\<close>

fun severity_map :: "ComplaintType \<Rightarrow> int" where
  "severity_map NEVER_ARRIVED = 35"
| "severity_map DAMAGED_FOOD = 25"
| "severity_map WRONG_ORDER = 20"
| "severity_map MISSING_ITEMS = 18"
| "severity_map QUALITY_ISSUE = 15"
| "severity_map LATE_DELIVERY = 10"

fun explanations :: "ComplaintType \<Rightarrow> string" where
  "explanations NEVER_ARRIVED = ''Order never arrived - critical issue''"
| "explanations DAMAGED_FOOD = ''Food damaged - health and safety concern''"
| "explanations WRONG_ORDER = ''Wrong order delivered - clear mistake''"
| "explanations MISSING_ITEMS = ''Items missing from order''"
| "explanations QUALITY_ISSUE = ''Quality concern reported''"
| "explanations LATE_DELIVERY = ''Delivery was late''"

definition evaluate_complaint_severity :: "CaseData \<Rightarrow> int \<times> DecisionReason" where
  "evaluate_complaint_severity c =
     (let sc = severity_map (complaint_type c)
      in (sc, \<lparr>factor = ''Complaint Severity'',
               explanation = explanations (complaint_type c),
               impact = of_int sc\<rparr>))"

text \<open>
  Every tier of the delay rule formats the delay into its sentence, so every tier raises what
  the conversion raises.
\<close>

definition evaluate_delivery_delay :: "CaseData \<Rightarrow> py_exception + int \<times> DecisionReason" where
  "evaluate_delivery_delay c =
     (let delay = delivery_delay_min c;
          tier =
            (if delay \<ge> 60 then
               (case py_str_int delay of
                  Inl e \<Rightarrow> Inl e
                | Inr d \<Rightarrow> Inr (20, ''Severe delay ('' @ d @ '' min) - highly unacceptable''))
             else if delay \<ge> 30 then
               (case py_str_int delay of
                  Inl e \<Rightarrow> Inl e
                | Inr d \<Rightarrow>
                    Inr (12, ''Significant delay ('' @ d @ '' min) - customer inconvenienced''))
             else if delay \<ge> 15 then
               (case py_str_int delay of
                  Inl e \<Rightarrow> Inl e
                | Inr d \<Rightarrow> Inr (5, ''Moderate delay ('' @ d @ '' min) - minor inconvenience''))
             else
               (case py_str_int delay of
                  Inl e \<Rightarrow> Inl e
                | Inr d \<Rightarrow>
                    Inr (0, ''Minimal delay ('' @ d @ '' min) - within acceptable range'')))
      in case tier of
           Inl e \<Rightarrow> Inl e
         | Inr (sc, expl) \<Rightarrow>
             Inr (sc, \<lparr>factor = ''Delivery Delay'', explanation = expl, impact = of_int sc\<rparr>))"

definition evaluate_restaurant_error_rate :: "CaseData \<Rightarrow> int \<times> DecisionReason" where
  "evaluate_restaurant_error_rate c =
     (let rate = restaurant_error_rate c;
          (sc, expl) =
            (if rate \<ge> 0.3 then
               (15, ''High restaurant error rate ('' @ py_format_pct 0 rate @ '') - pattern of issues'')
             else if rate \<ge> 0.15 then
               (8, ''Moderate restaurant error rate ('' @ py_format_pct 0 rate @ '')'')
             else if rate \<ge> 0.05 then
               (3, ''Low restaurant error rate ('' @ py_format_pct 0 rate @ '')'')
             else
               (0, ''Excellent restaurant record ('' @ py_format_pct 0 rate @ '')''))
      in (sc, \<lparr>factor = ''Restaurant Reliability'', explanation = expl, impact = of_int sc\<rparr>))"

definition evaluate_customer_history :: "CaseData \<Rightarrow> int \<times> DecisionReason" where
  "evaluate_customer_history c =
     (let rate = customer_refund_rate c;
          (sc, expl) =
            (if rate \<ge> 0.4 then
               (- 15, ''High customer refund rate ('' @ py_format_pct 0 rate @ '') - possible abuse pattern'')
             else if rate \<ge> 0.2 then
               (- 8, ''Elevated customer refund rate ('' @ py_format_pct 0 rate @ '') - requires scrutiny'')
             else if rate \<ge> 0.1 then
               (- 3, ''Moderate customer refund rate ('' @ py_format_pct 0 rate @ '')'')
             else
               (5, ''Excellent customer history ('' @ py_format_pct 0 rate @ '') - trustworthy''))
      in (sc, \<lparr>factor = ''Customer History'', explanation = expl, impact = of_int sc\<rparr>))"

definition evaluate_evidence :: "CaseData \<Rightarrow> int \<times> DecisionReason" where
  "evaluate_evidence c =
     (let (sc, expl) =
            (if photo_provided c then (10, ''Photo evidence provided - claim substantiated'')
             else (- 5, ''No photo evidence - claim unverified''))
      in (sc, \<lparr>factor = ''Evidence Quality'', explanation = expl, impact = of_int sc\<rparr>))"

definition evaluate_order_value :: "CaseData \<Rightarrow> int \<times> DecisionReason" where
  "evaluate_order_value c =
     (let v = order_value c;
          (sc, expl) =
            (if v \<ge> 100 then
               (10, ''High-value order ($'' @ py_format_f 2 v @ '') - important customer'')
             else if v \<ge> 50 then
               (5, ''Medium-value order ($'' @ py_format_f 2 v @ '')'')
             else if v \<ge> 20 then
               (2, ''Standard order value ($'' @ py_format_f 2 v @ '')'')
             else
               (0, ''Low-value order ($'' @ py_format_f 2 v @ '')''))
      in (sc, \<lparr>factor = ''Order Value'', explanation = expl, impact = of_int sc\<rparr>))"

section \<open>Text signals\<close>

text \<open>
  One block of \<open>_evaluate_text_features\<close>: \<open>total_score += score\<close> and a reason appended
  with \<open>impact=score\<close>.
\<close>

definition fire ::
  "int \<Rightarrow> string \<Rightarrow> string \<Rightarrow> rat \<times> DecisionReason list \<Rightarrow> rat \<times> DecisionReason list" where
  "fire sc fac expl acc =
     (fst acc + of_int sc, snd acc @ [\<lparr>factor = fac, explanation = expl, impact = of_int sc\<rparr>])"

definition evaluate_text_features :: "TextFeatures \<Rightarrow> rat \<times> DecisionReason list" where
  "evaluate_text_features features =
     (let acc = (0, []);
          acc = (if temperature_problem features then
                   fire 8 ''TEXT_SIGNAL_Temperature''
                     ''Complaint mentions temperature issues - food quality concern'' acc
                 else acc);
          acc = (if missing_item features \<or> wrong_item features then
                   (let item_type = (if missing_item features then ''missing'' else ''wrong'')
                    in fire 12 ''TEXT_SIGNAL_ItemIssue''
                         (''Complaint clearly describes '' @ item_type @ '' item - strong validity'') acc)
                 else acc);
          acc = (if delivery_spill features then
                   fire 10 ''TEXT_SIGNAL_DeliverySpill''
                     ''Delivery spill mentioned - courier fault, not restaurant'' acc
                 else acc);
          acc = (if food_quality_issue features then
                   fire 7 ''TEXT_SIGNAL_FoodQuality''
                     ''Food quality issue described in complaint'' acc
                 else acc);
          acc = (if packaging_problem features then
                   fire 6 ''TEXT_SIGNAL_Packaging''
                     ''Packaging problem mentioned - preparation issue'' acc
                 else acc);
          acc = (if vague_complaint features then
                   fire (- 8) ''TEXT_SIGNAL_VagueComplaint''
                     ''Complaint is vague or lacks specifics - reduces credibility'' acc
                 else acc);
          aggression = customer_aggression features;
          acc = (if aggression > 0.7 then
                   fire (- 5) ''TEXT_SIGNAL_Aggression''
                     (''High aggression level ('' @ py_format_pct 1 aggression @
                      '') - may indicate unreasonable expectations'') acc
                 else acc);
          evidence = evidence_strength features;
          acc = (if evidence > 0.6 then
                   fire 8 ''TEXT_SIGNAL_EvidenceStrength''
                     (''Strong evidence in complaint text ('' @ py_format_pct 1 evidence @
                      '') - detailed description'') acc
                 else acc)
      in acc)"

section \<open>Score to action\<close>

definition score_to_action :: "rat \<Rightarrow> CaseData \<Rightarrow> RefundAction \<times> rat" where
  "score_to_action sc c =
     (let normalized_score = max 0 (min 100 ((sc + 25) / 1.4))
      in if sc \<ge> REFUND_THRESHOLD then (REFUND, min 0.95 (normalized_score / 100))
         else if sc \<ge> MANUAL_REVIEW_THRESHOLD_HIGH then (MANUAL_REVIEW, 0.6)
         else if sc \<ge> PARTIAL_THRESHOLD then (PARTIAL, min 0.85 (normalized_score / 100))
         else if sc \<ge> MANUAL_REVIEW_THRESHOLD_LOW then (MANUAL_REVIEW, 0.6)
         else (REJECT, min 0.90 ((100 - normalized_score) / 100)))"

section \<open>The engine\<close>

text \<open>
  \<open>evaluate_case\<close> takes the case and the optional bundle and nothing else: the engine
  neither imports nor receives the policy table of main.py. An exception raised by the delay
  rule is not caught and ends the call.
\<close>

definition evaluate_case ::
  "CaseData \<Rightarrow> TextFeatures option \<Rightarrow> py_exception + RefundSuggestion" where
  "evaluate_case c text_features =
     (let rs = []; sc = 0;
          (severity_score, severity_reason) = evaluate_complaint_severity c;
          sc = sc + of_int severity_score; rs = rs @ [severity_reason]
      in case evaluate_delivery_delay c of
           Inl e \<Rightarrow> Inl e
         | Inr (delay_score, delay_reason) \<Rightarrow>
             (let sc = sc + of_int delay_score; rs = rs @ [delay_reason];
                  (restaurant_score, restaurant_reason) = evaluate_restaurant_error_rate c;
                  sc = sc + of_int restaurant_score; rs = rs @ [restaurant_reason];
                  (customer_score, customer_reason) = evaluate_customer_history c;
                  sc = sc + of_int customer_score; rs = rs @ [customer_reason];
                  (evidence_score, evidence_reason) = evaluate_evidence c;
                  sc = sc + of_int evidence_score; rs = rs @ [evidence_reason];
                  (value_score, value_reason) = evaluate_order_value c;
                  sc = sc + of_int value_score; rs = rs @ [value_reason];
                  (sc, rs) =
                    (case text_features of
                       None \<Rightarrow> (sc, rs)
                     | Some features \<Rightarrow>
                         if TextFeatures.confidence features > 0 then
                           (let (text_score, text_reasons) = evaluate_text_features features
                            in (sc + text_score, rs @ text_reasons))
                         else (sc, rs));
                  (act, conf) = score_to_action sc c
              in RefundSuggestion_init act conf (py_round2 sc) rs))"

section \<open>The policy table and its operations (main.py)\<close>

record PolicyRule =
  enabled :: bool
  weight :: rat
  description :: string

text \<open>
  \<open>policy_rules\<close> is a module-level dictionary from rule code to entry; an association
  list keeps Python's insertion order. \<open>AList.update\<close> overwrites the entry of a key in place,
  as assigning into an existing entry does.
\<close>

type_synonym policy_store = "(string \<times> PolicyRule) list"

definition policy_rules :: policy_store where
  "policy_rules =
     [(''COMPLAINT_SEVERITY'', \<lparr>enabled = True, weight = 1.0, description = ''Severity of complaint type''\<rparr>),
      (''HIGH_DELAY'', \<lparr>enabled = True, weight = 1.0, description = ''High delivery delay penalty''\<rparr>),
      (''RESTAURANT_ERROR'', \<lparr>enabled = True, weight = 1.0, description = ''Restaurant reliability score''\<rparr>),
      (''CUSTOMER_RISK'', \<lparr>enabled = True, weight = 1.0, description = ''Customer refund history risk''\<rparr>),
      (''PHOTO_EVIDENCE'', \<lparr>enabled = True, weight = 1.0, description = ''Photo evidence bonus''\<rparr>),
      (''ORDER_VALUE'', \<lparr>enabled = True, weight = 1.0, description = ''Order monetary value impact''\<rparr>),
      (''VAGUE_COMPLAINT'', \<lparr>enabled = True, weight = 1.0, description = ''Vague complaint penalty''\<rparr>),
      (''TEXT_SIGNALS'', \<lparr>enabled = True, weight = 1.0, description = ''LLM text intelligence signals''\<rparr>)]"

text \<open>
  What a handler raises: an \<open>HTTPException\<close> with its status code and detail, or the
  \<open>KeyError\<close> of a subscript on an absent key.
\<close>

datatype error = HTTPException nat string | KeyError string

text \<open>
  A handler returns its outcome together with the table as it leaves it, so that what an
  exception leaves behind is part of the result.
\<close>

definition toggle_policy_rule ::
  "policy_store \<Rightarrow> string \<Rightarrow> (error + string \<times> bool) \<times> policy_store" where
  "toggle_policy_rule st rule_code =
     (case map_of st rule_code of
        None \<Rightarrow> (Inl (HTTPException 404 (''Rule '' @ rule_code @ '' not found'')), st)
      | Some r \<Rightarrow>
          (let r' = r\<lparr>enabled := \<not> enabled r\<rparr>
           in (Inr (''Rule '' @ rule_code @ '' toggled'', enabled r'), AList.update rule_code r' st)))"

definition update_policy_weight ::
  "policy_store \<Rightarrow> string \<Rightarrow> rat \<Rightarrow> (error + string \<times> rat) \<times> policy_store" where
  "update_policy_weight st rule_code w =
     (case map_of st rule_code of
        None \<Rightarrow> (Inl (HTTPException 404 (''Rule '' @ rule_code @ '' not found'')), st)
      | Some r \<Rightarrow>
          if w < 0 \<or> w > 2 then (Inl (HTTPException 400 ''Weight must be between 0 and 2''), st)
          else (Inr (''Rule '' @ rule_code @ '' weight updated'', w),
                AList.update rule_code (r\<lparr>weight := w\<rparr>) st))"

text \<open>The assignments \<open>policy_rules[code]["weight"] = w\<close> and \<open>policy_rules[code]["enabled"] = b\<close>.\<close>

definition set_weight :: "string \<Rightarrow> rat \<Rightarrow> policy_store \<Rightarrow> error + policy_store" where
  "set_weight code w st =
     (case map_of st code of
        None \<Rightarrow> Inl (KeyError code)
      | Some r \<Rightarrow> Inr (AList.update code (r\<lparr>weight := w\<rparr>) st))"

definition set_enabled :: "string \<Rightarrow> bool \<Rightarrow> policy_store \<Rightarrow> error + policy_store" where
  "set_enabled code b st =
     (case map_of st code of
        None \<Rightarrow> Inl (KeyError code)
      | Some r \<Rightarrow> Inr (AList.update code (r\<lparr>enabled := b\<rparr>) st))"

text \<open>
  A sequence of assignments: the first one that raises ends the sequence, and the
  assignments made before it stay in the table.
\<close>

fun run_assignments ::
  "(policy_store \<Rightarrow> error + policy_store) list \<Rightarrow> policy_store \<Rightarrow> error option \<times> policy_store" where
  "run_assignments [] st = (None, st)"
| "run_assignments (f # fs) st =
     (case f st of Inl e \<Rightarrow> (Some e, st) | Inr st' \<Rightarrow> run_assignments fs st')"

text \<open>\<open>str.lower()\<close> on the ASCII letters; any other byte is kept.\<close>

definition lower_char :: "char \<Rightarrow> char" where
  "lower_char ch =
     (case map_of (zip ''ABCDEFGHIJKLMNOPQRSTUVWXYZ'' ''abcdefghijklmnopqrstuvwxyz'') ch of
        None \<Rightarrow> ch | Some l \<Rightarrow> l)"

definition lower :: "string \<Rightarrow> string" where
  "lower s = map lower_char s"

definition apply_policy_preset ::
  "policy_store \<Rightarrow> string \<Rightarrow> (error + string \<times> string list) \<times> policy_store" where
  "apply_policy_preset st name =
     (let preset = lower name
      in if preset = ''strict'' then
           (case run_assignments
                   [set_weight ''CUSTOMER_RISK'' 1.5, set_enabled ''CUSTOMER_RISK'' True,
                    set_weight ''VAGUE_COMPLAINT'' 1.3, set_enabled ''VAGUE_COMPLAINT'' True,
                    set_weight ''PHOTO_EVIDENCE'' 1.2] st of
              (Some e, st') \<Rightarrow> (Inl e, st')
            | (None, st') \<Rightarrow>
                (Inr (''Strict mode applied'',
                      [''CUSTOMER_RISK weight increased to 1.5'',
                       ''VAGUE_COMPLAINT weight increased to 1.3'',
                       ''PHOTO_EVIDENCE weight increased to 1.2'']), st'))
         else if preset = ''friendly'' then
           (case run_assignments
                   [set_weight ''CUSTOMER_RISK'' 0.5, set_enabled ''CUSTOMER_RISK'' True,
                    set_weight ''PHOTO_EVIDENCE'' 1.5, set_enabled ''PHOTO_EVIDENCE'' True,
                    set_weight ''VAGUE_COMPLAINT'' 0.5] st of
              (Some e, st') \<Rightarrow> (Inl e, st')
            | (None, st') \<Rightarrow>
                (Inr (''Customer-friendly mode applied'',
                      [''CUSTOMER_RISK weight decreased to 0.5'',
                       ''PHOTO_EVIDENCE weight increased to 1.5'',
                       ''VAGUE_COMPLAINT weight decreased to 0.5'']), st'))
         else if preset = ''delay-tolerant'' then
           (case run_assignments
                   [set_weight ''HIGH_DELAY'' 0.5, set_enabled ''HIGH_DELAY'' True,
                    set_weight ''COMPLAINT_SEVERITY'' 1.2] st of
              (Some e, st') \<Rightarrow> (Inl e, st')
            | (None, st') \<Rightarrow>
                (Inr (''Delay-tolerant mode applied'',
                      [''HIGH_DELAY weight decreased to 0.5'',
                       ''COMPLAINT_SEVERITY weight increased to 1.2'']), st'))
         else
           (Inl (HTTPException 400
                   (''Unknown preset: '' @ preset @
                    ''. Use 'strict', 'friendly', or 'delay-tolerant'' @ [CHR 0x27])), st))"

text \<open>
  The evaluation a request handler performs while the table holds \<open>st\<close>:
  \<open>suggestion = engine.evaluate_case(case, text_features)\<close>. The table is a global of the
  module and is not an argument of the call.
\<close>

definition evaluate ::
  "policy_store \<Rightarrow> CaseData \<Rightarrow> TextFeatures option \<Rightarrow> py_exception + RefundSuggestion" where
  "evaluate st c text_features = evaluate_case c text_features"

section \<open>The neutral bundle (app/nlp.py)\<close>

definition get_fallback_features :: TextFeatures where
  "get_fallback_features =
     \<lparr>food_quality_issue = False, missing_item = False, wrong_item = False,
      temperature_problem = False, packaging_problem = False, delivery_spill = False,
      vague_complaint = False, customer_aggression = 0.0, evidence_strength = 0.0,
      confidence = 0.0\<rparr>"

section \<open>The policy-weighted reading of a reason list\<close>

text \<open>
  Modelled from the spec: the fixed table that associates the factor of a reason with one
  policy key. The source has no such table; the keys are matched to the factors by the
  descriptions of the policy entries.
\<close>

definition rule_of_factor :: "string \<Rightarrow> string option" where
  "rule_of_factor =
     map_of
       [(''Complaint Severity'', ''COMPLAINT_SEVERITY''),
        (''Delivery Delay'', ''HIGH_DELAY''),
        (''Restaurant Reliability'', ''RESTAURANT_ERROR''),
        (''Customer History'', ''CUSTOMER_RISK''),
        (''Evidence Quality'', ''PHOTO_EVIDENCE''),
        (''Order Value'', ''ORDER_VALUE''),
        (''TEXT_SIGNAL_VagueComplaint'', ''VAGUE_COMPLAINT''),
        (''TEXT_SIGNAL_Temperature'', ''TEXT_SIGNALS''),
        (''TEXT_SIGNAL_ItemIssue'', ''TEXT_SIGNALS''),
        (''TEXT_SIGNAL_DeliverySpill'', ''TEXT_SIGNALS''),
        (''TEXT_SIGNAL_FoodQuality'', ''TEXT_SIGNALS''),
        (''TEXT_SIGNAL_Packaging'', ''TEXT_SIGNALS''),
        (''TEXT_SIGNAL_Aggression'', ''TEXT_SIGNALS''),
        (''TEXT_SIGNAL_EvidenceStrength'', ''TEXT_SIGNALS'')]"

text \<open>
  Modelled from the spec: what one reason contributes under a table, its impact times the
  weight of its rule when that rule is enabled and nothing otherwise, and the sum of these
  over a reason list.
\<close>

definition weighted_impact :: "policy_store \<Rightarrow> DecisionReason \<Rightarrow> rat" where
  "weighted_impact st r =
     (case rule_of_factor (factor r) of
        None \<Rightarrow> 0
      | Some code \<Rightarrow>
          (case map_of st code of
             None \<Rightarrow> 0
           | Some p \<Rightarrow> if enabled p then impact r * weight p else 0))"

definition policy_weighted_sum :: "policy_store \<Rightarrow> DecisionReason list \<Rightarrow> rat" where
  "policy_weighted_sum st rs = sum_list (map (weighted_impact st) rs)"

section \<open>Example inputs\<close>

text \<open>The case of the worked example: a high-value order that never arrived, with a photo.\<close>

definition example_case :: CaseData where
  "example_case =
     \<lparr>case_id = ''CASE0001'', order_value = 120, delivery_delay_min = 70,
      restaurant_error_rate = 0.35, customer_refund_rate = 0.05,
      complaint_type = NEVER_ARRIVED, photo_provided = True, is_demo = False,
      complaint_text = None\<rparr>"

text \<open>A small on-time order with low rates and no photo.\<close>

definition minimal_case :: CaseData where
  "minimal_case =
     \<lparr>case_id = ''CASE0002'', order_value = 10, delivery_delay_min = 5,
      restaurant_error_rate = 0.01, customer_refund_rate = 0.02,
      complaint_type = LATE_DELIVERY, photo_provided = False, is_demo = False,
      complaint_text = None\<rparr>"

text \<open>A bundle in which several signals fire at once, and both item flags are set.\<close>

definition example_bundle :: TextFeatures where
  "example_bundle =
     \<lparr>food_quality_issue = False, missing_item = True, wrong_item = True,
      temperature_problem = True, packaging_problem = False, delivery_spill = False,
      vague_complaint = True, customer_aggression = 0.75, evidence_strength = 0.6,
      confidence = 0.5\<rparr>"

section \<open>The action classifier\<close>

lemma normalized_range:
  fixes x :: rat
  shows "0 \<le> max 0 (min 100 x) / 100 \<and> max 0 (min 100 x) / 100 \<le> 1"
  by simp

lemma score_to_action_confidence_range:
  "0 \<le> snd (score_to_action S c) \<and> snd (score_to_action S c) \<le> 1"
proof -
  define n where "n = max 0 (min 100 ((S + 25) / 1.4)) / 100"
  have n: "0 \<le> n" "n \<le> 1"
    using normalized_range [of "(S + 25) / 1.4"] by (simp_all add: n_def)
  have m: "(100 - max 0 (min 100 ((S + 25) / 1.4))) / 100 = 1 - n"
    by (simp add: n_def diff_divide_distrib)
  show ?thesis
    unfolding score_to_action_def Let_def m n_def [symmetric]
    using n by (simp add: min_le_iff_disj)
qed

text \<open>
  C3. With \<open>N = clamp((S + 25) / 1.4, 0, 100)\<close>, the classifier tests \<open>S \<ge> 70\<close> (REFUND,
  confidence \<open>min(0.95, N/100)\<close>), then \<open>S \<ge> 65\<close> (MANUAL_REVIEW, 0.6), then \<open>S \<ge> 40\<close>
  (PARTIAL, \<open>min(0.85, N/100)\<close>), then \<open>S \<ge> 45\<close> (MANUAL_REVIEW), and otherwise answers
  REJECT with \<open>min(0.90, (100 - N)/100)\<close>. No score reaches the fourth test and passes it, so
  the classifier equals the chain without that test, and every score below 40 is rejected.
\<close>

theorem score_to_action_branch_order:
  "score_to_action S c =
     (let N = max 0 (min 100 ((S + 25) / 1.4))
      in if S \<ge> 70 then (REFUND, min 0.95 (N / 100))
         else if S \<ge> 65 then (MANUAL_REVIEW, 0.6)
         else if S \<ge> 40 then (PARTIAL, min 0.85 (N / 100))
         else if S \<ge> 45 then (MANUAL_REVIEW, 0.6)
         else (REJECT, min 0.90 ((100 - N) / 100)))
   \<and> score_to_action S c =
     (let N = max 0 (min 100 ((S + 25) / 1.4))
      in if S \<ge> 70 then (REFUND, min 0.95 (N / 100))
         else if S \<ge> 65 then (MANUAL_REVIEW, 0.6)
         else if S \<ge> 40 then (PARTIAL, min 0.85 (N / 100))
         else (REJECT, min 0.90 ((100 - N) / 100)))
   \<and> \<not> (S < 40 \<and> S \<ge> 45)
   \<and> (S < 40 \<longrightarrow>
        score_to_action S c =
          (REJECT, min 0.90 ((100 - max 0 (min 100 ((S + 25) / 1.4))) / 100)))"
  by (simp add: score_to_action_def Let_def REFUND_THRESHOLD_def PARTIAL_THRESHOLD_def
        MANUAL_REVIEW_THRESHOLD_HIGH_def MANUAL_REVIEW_THRESHOLD_LOW_def)

theorem score_to_action_branch_order_witness:
  "(5 :: rat) < 40 \<and> score_to_action 5 example_case = (REJECT, 11 / 14)
   \<and> score_to_action 42 example_case = (PARTIAL, 67 / 140)"
  using score_to_action_branch_order [of 5 example_case]
    score_to_action_branch_order [of 42 example_case]
  by (simp add: Let_def)

section \<open>The delay rule and the digit limit\<close>

lemma py_str_int_within:
  "length (digits_nat (nat \<bar>i\<bar>)) \<le> int_max_str_digits \<Longrightarrow>
   py_str_int i = Inr (if i < 0 then ''-'' @ digits_nat (nat \<bar>i\<bar>) else digits_nat (nat \<bar>i\<bar>))"
  by (simp add: py_str_int_def Let_def)

lemma py_str_int_beyond:
  "\<not> length (digits_nat (nat \<bar>i\<bar>)) \<le> int_max_str_digits \<Longrightarrow> py_str_int i = Inl exceeds_limit"
  by (simp add: py_str_int_def Let_def)

lemma evaluate_delivery_delay_beyond:
  assumes "\<not> length (digits_nat (nat \<bar>delivery_delay_min c\<bar>)) \<le> int_max_str_digits"
  shows "evaluate_delivery_delay c = Inl exceeds_limit"
proof -
  have "py_str_int (delivery_delay_min c) = Inl exceeds_limit"
    using assms by (rule py_str_int_beyond)
  then show ?thesis by (simp add: evaluate_delivery_delay_def Let_def)
qed

lemma evaluate_delivery_delay_within:
  assumes "length (digits_nat (nat \<bar>delivery_delay_min c\<bar>)) \<le> int_max_str_digits"
  shows "\<exists>sc r. evaluate_delivery_delay c = Inr (sc, r)"
proof -
  obtain d where "py_str_int (delivery_delay_min c) = Inr d"
    using py_str_int_within [OF assms] by blast
  then show ?thesis by (simp add: evaluate_delivery_delay_def Let_def)
qed

lemma evaluate_delivery_delay_reason:
  "evaluate_delivery_delay c = Inr (sc, r) \<Longrightarrow>
   factor r = ''Delivery Delay'' \<and> impact r = of_int sc"
  by (cases "py_str_int (delivery_delay_min c)")
     (auto simp add: evaluate_delivery_delay_def Let_def split: if_splits)

lemma evaluate_delivery_delay_zero_tier:
  "delivery_delay_min c < 15 \<Longrightarrow> py_str_int (delivery_delay_min c) = Inr d \<Longrightarrow>
   evaluate_delivery_delay c =
     Inr (0, \<lparr>factor = ''Delivery Delay'',
              explanation = ''Minimal delay ('' @ d @ '' min) - within acceptable range'',
              impact = 0\<rparr>)"
  by (simp add: evaluate_delivery_delay_def Let_def)

lemma evaluate_case_raises:
  "evaluate_delivery_delay c = Inl e \<Longrightarrow> evaluate_case c tf = Inl e"
  by (simp add: evaluate_case_def Let_def split_beta)

lemma evaluate_case_returns:
  "evaluate_delivery_delay c = Inr (ds, dr) \<Longrightarrow>
   \<exists>s. evaluate_case c tf = Inr s \<and> 0 \<le> confidence s \<and> confidence s \<le> 1"
  using score_to_action_confidence_range
  by (simp add: evaluate_case_def Let_def split_beta RefundSuggestion_init_def)

section \<open>When the engine answers\<close>

lemma RefundAction_UNIV: "a \<in> {REFUND, PARTIAL, REJECT, MANUAL_REVIEW}"
  by (cases a) simp_all

text \<open>
  C4 (amended). For every case whose delivery delay has at most 4300 decimal digits, the
  interpreter's limit for converting an integer to a string, and for every optional bundle,
  the engine returns a suggestion and raises nothing: the range check on the confidence
  passes, the confidence is between 0 and 1, and the action is one of the four actions. The
  confidence the classifier computes is between 0 and 1 for every score.
\<close>

theorem evaluate_case_returns_valid_suggestion:
  "(length (digits_nat (nat \<bar>delivery_delay_min c\<bar>)) \<le> int_max_str_digits \<longrightarrow>
      (\<exists>s. evaluate_case c tf = Inr s \<and> 0 \<le> confidence s \<and> confidence s \<le> 1
          \<and> action s \<in> {REFUND, PARTIAL, REJECT, MANUAL_REVIEW}))
   \<and> 0 \<le> snd (score_to_action S c') \<and> snd (score_to_action S c') \<le> 1"
proof (intro conjI impI)
  assume "length (digits_nat (nat \<bar>delivery_delay_min c\<bar>)) \<le> int_max_str_digits"
  then obtain ds dr where "evaluate_delivery_delay c = Inr (ds, dr)"
    using evaluate_delivery_delay_within by blast
  then obtain s where "evaluate_case c tf = Inr s" "0 \<le> confidence s" "confidence s \<le> 1"
    using evaluate_case_returns by blast
  then show "\<exists>s. evaluate_case c tf = Inr s \<and> 0 \<le> confidence s \<and> confidence s \<le> 1
          \<and> action s \<in> {REFUND, PARTIAL, REJECT, MANUAL_REVIEW}"
    using RefundAction_UNIV by blast
qed (simp_all add: score_to_action_confidence_range)

theorem evaluate_case_returns_valid_suggestion_witness:
  "length (digits_nat (nat \<bar>delivery_delay_min example_case\<bar>)) \<le> int_max_str_digits
   \<and> map_sum id action (evaluate_case example_case None) = Inr REFUND
   \<and> map_sum id confidence (evaluate_case example_case None) = Inr (6 / 7)"
  using evaluate_case_returns_valid_suggestion [of example_case None]
  by (simp add: evaluate_case_def example_case_def evaluate_complaint_severity_def
        evaluate_delivery_delay_def evaluate_restaurant_error_rate_def
        evaluate_customer_history_def evaluate_evidence_def evaluate_order_value_def
        score_to_action_def RefundSuggestion_init_def REFUND_THRESHOLD_def py_round2_def
        round_half_even_def py_str_int_def int_max_str_digits_def digits_nat.simps Let_def)

lemma digits_nat_power10: "length (digits_nat (10 ^ k)) = Suc k"
proof (induction k)
  case 0
  show ?case by (simp add: digits_nat.simps)
next
  case (Suc k)
  have "\<not> (10 :: nat) ^ Suc k < 10" by simp
  then have "digits_nat (10 ^ Suc k) =
      digits_nat (10 ^ Suc k div 10) @ [''0123456789'' ! (10 ^ Suc k mod 10)]"
    by (subst digits_nat.simps) (simp only: if_False)
  then show ?case using Suc.IH by simp
qed

text \<open>
  C4, as stated, lets no input make the engine raise. A delay of \<open>10 ^ 4300\<close> minutes has
  4301 digits; the delay rule formats it into its sentence, the conversion raises
  \<open>ValueError\<close>, and \<open>evaluate_case\<close> does not catch it.
\<close>

theorem huge_delay_raises_counterexample:
  "int_max_str_digits = 4300
   \<and> length (digits_nat (nat \<bar>10 ^ int_max_str_digits\<bar>)) = 4301
   \<and> evaluate_case (example_case\<lparr>delivery_delay_min := 10 ^ int_max_str_digits\<rparr>) None =
       Inl exceeds_limit"
proof -
  have n: "nat \<bar>(10 :: int) ^ int_max_str_digits\<bar> = 10 ^ int_max_str_digits"
    by (simp add: nat_power_eq)
  have l: "length (digits_nat (nat \<bar>(10 :: int) ^ int_max_str_digits\<bar>)) = Suc int_max_str_digits"
    by (simp only: n digits_nat_power10)
  have "\<not> length (digits_nat (nat \<bar>delivery_delay_min
           (example_case\<lparr>delivery_delay_min := 10 ^ int_max_str_digits\<rparr>)\<bar>)) \<le> int_max_str_digits"
    using l by simp
  then have "evaluate_case (example_case\<lparr>delivery_delay_min := 10 ^ int_max_str_digits\<rparr>) None =
       Inl exceeds_limit"
    by (intro evaluate_case_raises evaluate_delivery_delay_beyond)
  moreover have "Suc int_max_str_digits = 4301" "int_max_str_digits = 4300"
    by (simp_all add: int_max_str_digits_def)
  ultimately show ?thesis using l by simp
qed

section \<open>The worked example\<close>

text \<open>
  C5. Under the initial policy table, the example case without text signals gets the
  contributions 35, 20, 15, 5, 10 and 10, the score 95, the action REFUND and the confidence
  \<open>min(0.95, clamp((95 + 25) / 1.4, 0, 100) / 100) = 6/7\<close>, which is 0.857 to three decimals.
\<close>

theorem example_case_suggestion:
  "evaluate policy_rules example_case None =
     Inr \<lparr>action = REFUND, confidence = 6 / 7, score = 95,
          reasons =
            [\<lparr>factor = ''Complaint Severity'',
               explanation = ''Order never arrived - critical issue'', impact = 35\<rparr>,
             \<lparr>factor = ''Delivery Delay'',
               explanation = ''Severe delay (70 min) - highly unacceptable'', impact = 20\<rparr>,
             \<lparr>factor = ''Restaurant Reliability'',
               explanation = ''High restaurant error rate (35%) - pattern of issues'',
               impact = 15\<rparr>,
             \<lparr>factor = ''Customer History'',
               explanation = ''Excellent customer history (5%) - trustworthy'', impact = 5\<rparr>,
             \<lparr>factor = ''Evidence Quality'',
               explanation = ''Photo evidence provided - claim substantiated'', impact = 10\<rparr>,
             \<lparr>factor = ''Order Value'',
               explanation = ''High-value order ($120.00) - important customer'',
               impact = 10\<rparr>]\<rparr>
   \<and> 35 + 20 + 15 + 5 + 10 + 10 = (95 :: rat)
   \<and> min 0.95 (max 0 (min 100 ((95 + 25) / 1.4)) / 100) = (6 / 7 :: rat)
   \<and> \<bar>6 / 7 - 0.857\<bar> < (0.001 :: rat)"
  by (simp add: evaluate_def evaluate_case_def example_case_def evaluate_complaint_severity_def
        evaluate_delivery_delay_def evaluate_restaurant_error_rate_def
        evaluate_customer_history_def evaluate_evidence_def evaluate_order_value_def
        score_to_action_def RefundSuggestion_init_def REFUND_THRESHOLD_def py_round2_def
        round_half_even_def py_format_pct_def py_format_f_def py_str_int_def
        int_max_str_digits_def digits_nat.simps Let_def)

section \<open>The neutral bundle\<close>

lemma evaluators_ignore_complaint_text:
  "evaluate_complaint_severity (c\<lparr>complaint_text := t\<rparr>) = evaluate_complaint_severity c"
  "evaluate_delivery_delay (c\<lparr>complaint_text := t\<rparr>) = evaluate_delivery_delay c"
  "evaluate_restaurant_error_rate (c\<lparr>complaint_text := t\<rparr>) = evaluate_restaurant_error_rate c"
  "evaluate_customer_history (c\<lparr>complaint_text := t\<rparr>) = evaluate_customer_history c"
  "evaluate_evidence (c\<lparr>complaint_text := t\<rparr>) = evaluate_evidence c"
  "evaluate_order_value (c\<lparr>complaint_text := t\<rparr>) = evaluate_order_value c"
  "score_to_action sc (c\<lparr>complaint_text := t\<rparr>) = score_to_action sc c"
  by (simp_all add: evaluate_complaint_severity_def evaluate_delivery_delay_def
        evaluate_restaurant_error_rate_def evaluate_customer_history_def evaluate_evidence_def
        evaluate_order_value_def score_to_action_def)

lemma evaluate_case_ignores_complaint_text:
  "evaluate_case (c\<lparr>complaint_text := t\<rparr>) tf = evaluate_case c tf"
  by (simp add: evaluate_case_def evaluators_ignore_complaint_text Let_def split_beta
        split: sum.split)

lemma evaluate_case_fallback:
  "evaluate_case c (Some get_fallback_features) = evaluate_case c None"
  by (simp add: evaluate_case_def get_fallback_features_def Let_def split_beta
        split: sum.split)

text \<open>
  C6. For every case, the engine returns the same suggestion (action, confidence, score and
  reason list) for the neutral fallback bundle as for no bundle at all; this also holds
  between the case carrying a complaint text, evaluated with the fallback bundle, and the same
  case with the complaint text omitted, evaluated with no bundle.
\<close>

theorem fallback_bundle_same_as_no_bundle:
  "evaluate_case c (Some get_fallback_features) = evaluate_case c None
   \<and> evaluate_case (c\<lparr>complaint_text := Some t\<rparr>) (Some get_fallback_features) =
     evaluate_case (c\<lparr>complaint_text := None\<rparr>) None"
  by (simp add: evaluate_case_ignores_complaint_text evaluate_case_fallback)

section \<open>The shape of a returned suggestion\<close>

lemma fire_if:
  "(if b then fire k fac ex acc else acc) =
     (fst acc + (if b then of_int k else 0),
      snd acc @ (if b then [\<lparr>factor = fac, explanation = ex, impact = of_int k\<rparr>] else []))"
  by (simp add: fire_def)

lemma evaluate_text_features_independent:
  "evaluate_text_features f =
     ((if temperature_problem f then 8 else 0) +
      (if missing_item f \<or> wrong_item f then 12 else 0) +
      (if delivery_spill f then 10 else 0) +
      (if food_quality_issue f then 7 else 0) +
      (if packaging_problem f then 6 else 0) +
      (if vague_complaint f then - 8 else 0) +
      (if customer_aggression f > 0.7 then - 5 else 0) +
      (if evidence_strength f > 0.6 then 8 else 0),
      (if temperature_problem f then
         [\<lparr>factor = ''TEXT_SIGNAL_Temperature'',
           explanation = ''Complaint mentions temperature issues - food quality concern'',
           impact = 8\<rparr>] else []) @
      (if missing_item f \<or> wrong_item f then
         [\<lparr>factor = ''TEXT_SIGNAL_ItemIssue'',
           explanation =
             (if missing_item f then ''Complaint clearly describes missing item - strong validity''
              else ''Complaint clearly describes wrong item - strong validity''),
           impact = 12\<rparr>] else []) @
      (if delivery_spill f then
         [\<lparr>factor = ''TEXT_SIGNAL_DeliverySpill'',
           explanation = ''Delivery spill mentioned - courier fault, not restaurant'',
           impact = 10\<rparr>] else []) @
      (if food_quality_issue f then
         [\<lparr>factor = ''TEXT_SIGNAL_FoodQuality'',
           explanation = ''Food quality issue described in complaint'',
           impact = 7\<rparr>] else []) @
      (if packaging_problem f then
         [\<lparr>factor = ''TEXT_SIGNAL_Packaging'',
           explanation = ''Packaging problem mentioned - preparation issue'',
           impact = 6\<rparr>] else []) @
      (if vague_complaint f then
         [\<lparr>factor = ''TEXT_SIGNAL_VagueComplaint'',
           explanation = ''Complaint is vague or lacks specifics - reduces credibility'',
           impact = - 8\<rparr>] else []) @
      (if customer_aggression f > 0.7 then
         [\<lparr>factor = ''TEXT_SIGNAL_Aggression'',
           explanation = ''High aggression level ('' @ py_format_pct 1 (customer_aggression f) @
                         '') - may indicate unreasonable expectations'',
           impact = - 5\<rparr>] else []) @
      (if evidence_strength f > 0.6 then
         [\<lparr>factor = ''TEXT_SIGNAL_EvidenceStrength'',
           explanation = ''Strong evidence in complaint text ('' @
                         py_format_pct 1 (evidence_strength f) @ '') - detailed description'',
           impact = 8\<rparr>] else []))"
proof -
  have item: "''Complaint clearly describes '' @ (if missing_item f then ''missing'' else ''wrong'') @
      '' item - strong validity'' =
      (if missing_item f then ''Complaint clearly describes missing item - strong validity''
       else ''Complaint clearly describes wrong item - strong validity'')"
    by simp
  show ?thesis
    unfolding evaluate_text_features_def Let_def fire_if item
    by (simp split del: if_split cong: if_cong)
qed


lemma round_half_even_of_int: "round_half_even (of_int n) = n"
  by (simp add: round_half_even_def)

lemma py_round2_Ints: "x \<in> \<int> \<Longrightarrow> py_round2 x = x"
proof -
  assume "x \<in> \<int>"
  then obtain n where x: "x = of_int n" by (auto elim: Ints_cases)
  have "x * 100 = of_int (n * 100)" by (simp add: x)
  then have "round_half_even (x * 100) = n * 100"
    by (simp only: round_half_even_of_int)
  then show ?thesis by (simp add: py_round2_def x)
qed

lemma if_Ints: "x \<in> \<int> \<Longrightarrow> y \<in> \<int> \<Longrightarrow> (if b then x else y) \<in> \<int>"
  by simp

lemma text_score_Ints: "fst (evaluate_text_features f) \<in> \<int>"
  unfolding evaluate_text_features_independent fst_conv
  by (intro Ints_add if_Ints) simp_all

lemma evaluate_case_shape:
  "evaluate_delivery_delay c = Inr (ds, dr) \<Longrightarrow>
   \<exists>s. evaluate_case c tf = Inr s \<and>
       reasons s =
         [snd (evaluate_complaint_severity c), dr,
          snd (evaluate_restaurant_error_rate c), snd (evaluate_customer_history c),
          snd (evaluate_evidence c), snd (evaluate_order_value c)] @
         (case tf of
            None \<Rightarrow> []
          | Some f \<Rightarrow> if TextFeatures.confidence f > 0 then snd (evaluate_text_features f) else []) \<and>
       score s =
         of_int (fst (evaluate_complaint_severity c) + ds +
                 fst (evaluate_restaurant_error_rate c) + fst (evaluate_customer_history c) +
                 fst (evaluate_evidence c) + fst (evaluate_order_value c)) +
         (case tf of
            None \<Rightarrow> 0
          | Some f \<Rightarrow> if TextFeatures.confidence f > 0 then fst (evaluate_text_features f) else 0)"
  using score_to_action_confidence_range
  by (simp add: evaluate_case_def Let_def split_beta RefundSuggestion_init_def
        py_round2_Ints text_score_Ints split: option.split)

section \<open>The reason list\<close>

lemma evaluator_factors:
  "factor (snd (evaluate_complaint_severity c)) = ''Complaint Severity''"
  "factor (snd (evaluate_restaurant_error_rate c)) = ''Restaurant Reliability''"
  "factor (snd (evaluate_customer_history c)) = ''Customer History''"
  "factor (snd (evaluate_evidence c)) = ''Evidence Quality''"
  "factor (snd (evaluate_order_value c)) = ''Order Value''"
  by (simp_all add: evaluate_complaint_severity_def
        evaluate_restaurant_error_rate_def evaluate_customer_history_def evaluate_evidence_def
        evaluate_order_value_def Let_def split_beta)

lemma zero_tiers:
  "restaurant_error_rate c < 0.05 \<Longrightarrow> snd (evaluate_restaurant_error_rate c) =
      \<lparr>factor = ''Restaurant Reliability'',
       explanation = ''Excellent restaurant record ('' @ py_format_pct 0 (restaurant_error_rate c) @ '')'',
       impact = 0\<rparr>"
  "order_value c < 20 \<Longrightarrow> snd (evaluate_order_value c) =
      \<lparr>factor = ''Order Value'',
       explanation = ''Low-value order ($'' @ py_format_f 2 (order_value c) @ '')'',
       impact = 0\<rparr>"
  by (simp_all add: evaluate_restaurant_error_rate_def evaluate_order_value_def Let_def)

text \<open>
  C10. Every suggestion the engine returns starts its reason list with the six reasons of the
  unconditional rules, in the order Complaint Severity, Delivery Delay, Restaurant
  Reliability, Customer History, Evidence Quality, Order Value; only text-signal reasons can
  follow. A rule whose tier contributes 0 (a delay under 15 minutes, an error rate under
  0.05, an order value under 20) still reports its reason, with impact 0 and its sentence.
  The engine returns a suggestion for every case whose delay has at most 4300 digits and every
  optional bundle; for a longer delay it raises and there is no reason list.
\<close>

theorem six_base_reasons_first:
  "(length (digits_nat (nat \<bar>delivery_delay_min c\<bar>)) \<le> int_max_str_digits \<longrightarrow>
      (\<exists>s delay_score delay_reason.
         evaluate_case c tf = Inr s \<and>
         evaluate_delivery_delay c = Inr (delay_score, delay_reason) \<and>
         reasons s =
           [snd (evaluate_complaint_severity c), delay_reason,
            snd (evaluate_restaurant_error_rate c), snd (evaluate_customer_history c),
            snd (evaluate_evidence c), snd (evaluate_order_value c)] @
           (case tf of
              None \<Rightarrow> []
            | Some f \<Rightarrow>
                if TextFeatures.confidence f > 0 then snd (evaluate_text_features f) else []) \<and>
         map factor (take 6 (reasons s)) =
           [''Complaint Severity'', ''Delivery Delay'', ''Restaurant Reliability'',
            ''Customer History'', ''Evidence Quality'', ''Order Value''] \<and>
         (delivery_delay_min c < 15 \<longrightarrow>
            (\<exists>d. py_str_int (delivery_delay_min c) = Inr d \<and>
               reasons s ! 1 =
                 \<lparr>factor = ''Delivery Delay'',
                  explanation = ''Minimal delay ('' @ d @ '' min) - within acceptable range'',
                  impact = 0\<rparr>)) \<and>
         (restaurant_error_rate c < 0.05 \<longrightarrow>
            reasons s ! 2 =
              \<lparr>factor = ''Restaurant Reliability'',
               explanation = ''Excellent restaurant record ('' @
                             py_format_pct 0 (restaurant_error_rate c) @ '')'',
               impact = 0\<rparr>) \<and>
         (order_value c < 20 \<longrightarrow>
            reasons s ! 5 =
              \<lparr>factor = ''Order Value'',
               explanation = ''Low-value order ($'' @ py_format_f 2 (order_value c) @ '')'',
               impact = 0\<rparr>)))
   \<and> (\<not> length (digits_nat (nat \<bar>delivery_delay_min c\<bar>)) \<le> int_max_str_digits \<longrightarrow>
        evaluate_case c tf = Inl exceeds_limit)"
proof (intro conjI impI)
  assume b: "length (digits_nat (nat \<bar>delivery_delay_min c\<bar>)) \<le> int_max_str_digits"
  obtain d where d: "py_str_int (delivery_delay_min c) = Inr d"
    using py_str_int_within [OF b] by blast
  obtain ds dr where dd: "evaluate_delivery_delay c = Inr (ds, dr)"
    using evaluate_delivery_delay_within [OF b] by blast
  obtain s where s: "evaluate_case c tf = Inr s"
    and r: "reasons s =
         [snd (evaluate_complaint_severity c), dr,
          snd (evaluate_restaurant_error_rate c), snd (evaluate_customer_history c),
          snd (evaluate_evidence c), snd (evaluate_order_value c)] @
         (case tf of
            None \<Rightarrow> []
          | Some f \<Rightarrow> if TextFeatures.confidence f > 0 then snd (evaluate_text_features f) else [])"
    using evaluate_case_shape [OF dd, of tf] by blast
  have f: "map factor (take 6 (reasons s)) =
         [''Complaint Severity'', ''Delivery Delay'', ''Restaurant Reliability'',
          ''Customer History'', ''Evidence Quality'', ''Order Value'']"
    using evaluate_delivery_delay_reason [OF dd] by (simp add: r evaluator_factors)
  have n: "reasons s ! 1 = dr"
    "reasons s ! 2 = snd (evaluate_restaurant_error_rate c)"
    "reasons s ! 5 = snd (evaluate_order_value c)"
    by (simp_all add: r)
  have z: "dr = \<lparr>factor = ''Delivery Delay'',
                  explanation = ''Minimal delay ('' @ d @ '' min) - within acceptable range'',
                  impact = 0\<rparr>" if "delivery_delay_min c < 15"
    using evaluate_delivery_delay_zero_tier [OF that d] dd by simp
  show "\<exists>s delay_score delay_reason.
         evaluate_case c tf = Inr s \<and>
         evaluate_delivery_delay c = Inr (delay_score, delay_reason) \<and>
         reasons s =
           [snd (evaluate_complaint_severity c), delay_reason,
            snd (evaluate_restaurant_error_rate c), snd (evaluate_customer_history c),
            snd (evaluate_evidence c), snd (evaluate_order_value c)] @
           (case tf of
              None \<Rightarrow> []
            | Some f \<Rightarrow>
                if TextFeatures.confidence f > 0 then snd (evaluate_text_features f) else []) \<and>
         map factor (take 6 (reasons s)) =
           [''Complaint Severity'', ''Delivery Delay'', ''Restaurant Reliability'',
            ''Customer History'', ''Evidence Quality'', ''Order Value''] \<and>
         (delivery_delay_min c < 15 \<longrightarrow>
            (\<exists>d. py_str_int (delivery_delay_min c) = Inr d \<and>
               reasons s ! 1 =
                 \<lparr>factor = ''Delivery Delay'',
                  explanation = ''Minimal delay ('' @ d @ '' min) - within acceptable range'',
                  impact = 0\<rparr>)) \<and>
         (restaurant_error_rate c < 0.05 \<longrightarrow>
            reasons s ! 2 =
              \<lparr>factor = ''Restaurant Reliability'',
               explanation = ''Excellent restaurant record ('' @
                             py_format_pct 0 (restaurant_error_rate c) @ '')'',
               impact = 0\<rparr>) \<and>
         (order_value c < 20 \<longrightarrow>
            reasons s ! 5 =
              \<lparr>factor = ''Order Value'',
               explanation = ''Low-value order ($'' @ py_format_f 2 (order_value c) @ '')'',
               impact = 0\<rparr>)"
    apply (rule exI [of _ s], rule exI [of _ ds], rule exI [of _ dr])
    using s dd r f n z d zero_tiers [of c] by simp
next
  assume "\<not> length (digits_nat (nat \<bar>delivery_delay_min c\<bar>)) \<le> int_max_str_digits"
  then show "evaluate_case c tf = Inl exceeds_limit"
    by (intro evaluate_case_raises evaluate_delivery_delay_beyond)
qed

theorem six_base_reasons_first_witness:
  "length (digits_nat (nat \<bar>delivery_delay_min minimal_case\<bar>)) \<le> int_max_str_digits \<and>
   delivery_delay_min minimal_case < 15 \<and> restaurant_error_rate minimal_case < 0.05 \<and>
   order_value minimal_case < 20 \<and>
   map_sum id reasons (evaluate_case minimal_case None) =
     Inr [\<lparr>factor = ''Complaint Severity'', explanation = ''Delivery was late'', impact = 10\<rparr>,
          \<lparr>factor = ''Delivery Delay'',
            explanation = ''Minimal delay (5 min) - within acceptable range'', impact = 0\<rparr>,
          \<lparr>factor = ''Restaurant Reliability'',
            explanation = ''Excellent restaurant record (1%)'', impact = 0\<rparr>,
          \<lparr>factor = ''Customer History'',
            explanation = ''Excellent customer history (2%) - trustworthy'', impact = 5\<rparr>,
          \<lparr>factor = ''Evidence Quality'',
            explanation = ''No photo evidence - claim unverified'', impact = - 5\<rparr>,
          \<lparr>factor = ''Order Value'', explanation = ''Low-value order ($10.00)'', impact = 0\<rparr>]"
  using six_base_reasons_first [of minimal_case None]
  by (simp add: minimal_case_def evaluate_case_def evaluate_complaint_severity_def
        evaluate_delivery_delay_def evaluate_restaurant_error_rate_def
        evaluate_customer_history_def evaluate_evidence_def evaluate_order_value_def
        score_to_action_def RefundSuggestion_init_def REFUND_THRESHOLD_def
        PARTIAL_THRESHOLD_def MANUAL_REVIEW_THRESHOLD_HIGH_def MANUAL_REVIEW_THRESHOLD_LOW_def
        py_round2_def py_format_pct_def py_format_f_def py_str_int_def int_max_str_digits_def
        round_half_even_def digits_nat.simps Let_def)

section \<open>The text-signal group\<close>

text \<open>
  C7 (amended). The eight text-signal contributions are independent of one another: the score
  of the group is the sum, and its reason list the concatenation in source order, of
  temperature_problem +8, missing_item or wrong_item +12 (the sentence says "missing" when
  missing_item is set and "wrong" otherwise), delivery_spill +10, food_quality_issue +7,
  packaging_problem +6, vague_complaint -8, customer_aggression above 0.7 -5 and
  evidence_strength above 0.6 +8. For every policy table, the suggestion the engine returns
  carries the group after the six base reasons, and its score in the total, exactly when the
  bundle's confidence is positive; with a confidence that is not positive no text signal
  fires. The TEXT_SIGNALS entry of the table plays no part. The engine returns a suggestion
  whenever the delay has at most 4300 digits, and raises otherwise.
\<close>

theorem text_signal_contributions:
  "evaluate_text_features f =
     ((if temperature_problem f then 8 else 0) +
      (if missing_item f \<or> wrong_item f then 12 else 0) +
      (if delivery_spill f then 10 else 0) +
      (if food_quality_issue f then 7 else 0) +
      (if packaging_problem f then 6 else 0) +
      (if vague_complaint f then - 8 else 0) +
      (if customer_aggression f > 0.7 then - 5 else 0) +
      (if evidence_strength f > 0.6 then 8 else 0),
      (if temperature_problem f then
         [\<lparr>factor = ''TEXT_SIGNAL_Temperature'',
           explanation = ''Complaint mentions temperature issues - food quality concern'',
           impact = 8\<rparr>] else []) @
      (if missing_item f \<or> wrong_item f then
         [\<lparr>factor = ''TEXT_SIGNAL_ItemIssue'',
           explanation =
             (if missing_item f then ''Complaint clearly describes missing item - strong validity''
              else ''Complaint clearly describes wrong item - strong validity''),
           impact = 12\<rparr>] else []) @
      (if delivery_spill f then
         [\<lparr>factor = ''TEXT_SIGNAL_DeliverySpill'',
           explanation = ''Delivery spill mentioned - courier fault, not restaurant'',
           impact = 10\<rparr>] else []) @
      (if food_quality_issue f then
         [\<lparr>factor = ''TEXT_SIGNAL_FoodQuality'',
           explanation = ''Food quality issue described in complaint'',
           impact = 7\<rparr>] else []) @
      (if packaging_problem f then
         [\<lparr>factor = ''TEXT_SIGNAL_Packaging'',
           explanation = ''Packaging problem mentioned - preparation issue'',
           impact = 6\<rparr>] else []) @
      (if vague_complaint f then
         [\<lparr>factor = ''TEXT_SIGNAL_VagueComplaint'',
           explanation = ''Complaint is vague or lacks specifics - reduces credibility'',
           impact = - 8\<rparr>] else []) @
      (if customer_aggression f > 0.7 then
         [\<lparr>factor = ''TEXT_SIGNAL_Aggression'',
           explanation = ''High aggression level ('' @ py_format_pct 1 (customer_aggression f) @
                         '') - may indicate unreasonable expectations'',
           impact = - 5\<rparr>] else []) @
      (if evidence_strength f > 0.6 then
         [\<lparr>factor = ''TEXT_SIGNAL_EvidenceStrength'',
           explanation = ''Strong evidence in complaint text ('' @
                         py_format_pct 1 (evidence_strength f) @ '') - detailed description'',
           impact = 8\<rparr>] else []))
   \<and> (length (digits_nat (nat \<bar>delivery_delay_min c\<bar>)) \<le> int_max_str_digits \<longrightarrow>
        (\<exists>delay_score delay_reason.
           evaluate_delivery_delay c = Inr (delay_score, delay_reason) \<and>
           (TextFeatures.confidence f > 0 \<longrightarrow>
              (\<exists>s. evaluate st c (Some f) = Inr s \<and>
                 reasons s =
                   [snd (evaluate_complaint_severity c), delay_reason,
                    snd (evaluate_restaurant_error_rate c), snd (evaluate_customer_history c),
                    snd (evaluate_evidence c), snd (evaluate_order_value c)] @
                   snd (evaluate_text_features f) \<and>
                 score s =
                   of_int (fst (evaluate_complaint_severity c) + delay_score +
                           fst (evaluate_restaurant_error_rate c) +
                           fst (evaluate_customer_history c) +
                           fst (evaluate_evidence c) + fst (evaluate_order_value c)) +
                   fst (evaluate_text_features f))) \<and>
           (\<not> TextFeatures.confidence f > 0 \<longrightarrow>
              (\<exists>s. evaluate st c (Some f) = Inr s \<and>
                 reasons s =
                   [snd (evaluate_complaint_severity c), delay_reason,
                    snd (evaluate_restaurant_error_rate c), snd (evaluate_customer_history c),
                    snd (evaluate_evidence c), snd (evaluate_order_value c)] \<and>
                 score s =
                   of_int (fst (evaluate_complaint_severity c) + delay_score +
                           fst (evaluate_restaurant_error_rate c) +
                           fst (evaluate_customer_history c) +
                           fst (evaluate_evidence c) + fst (evaluate_order_value c))))))
   \<and> (\<not> length (digits_nat (nat \<bar>delivery_delay_min c\<bar>)) \<le> int_max_str_digits \<longrightarrow>
        evaluate st c (Some f) = Inl exceeds_limit)"
proof (intro conjI impI)
  show "evaluate_text_features f =
     ((if temperature_problem f then 8 else 0) +
      (if missing_item f \<or> wrong_item f then 12 else 0) +
      (if delivery_spill f then 10 else 0) +
      (if food_quality_issue f then 7 else 0) +
      (if packaging_problem f then 6 else 0) +
      (if vague_complaint f then - 8 else 0) +
      (if customer_aggression f > 0.7 then - 5 else 0) +
      (if evidence_strength f > 0.6 then 8 else 0),
      (if temperature_problem f then
         [\<lparr>factor = ''TEXT_SIGNAL_Temperature'',
           explanation = ''Complaint mentions temperature issues - food quality concern'',
           impact = 8\<rparr>] else []) @
      (if missing_item f \<or> wrong_item f then
         [\<lparr>factor = ''TEXT_SIGNAL_ItemIssue'',
           explanation =
             (if missing_item f then ''Complaint clearly describes missing item - strong validity''
              else ''Complaint clearly describes wrong item - strong validity''),
           impact = 12\<rparr>] else []) @
      (if delivery_spill f then
         [\<lparr>factor = ''TEXT_SIGNAL_DeliverySpill'',
           explanation = ''Delivery spill mentioned - courier fault, not restaurant'',
           impact = 10\<rparr>] else []) @
      (if food_quality_issue f then
         [\<lparr>factor = ''TEXT_SIGNAL_FoodQuality'',
           explanation = ''Food quality issue described in complaint'',
           impact = 7\<rparr>] else []) @
      (if packaging_problem f then
         [\<lparr>factor = ''TEXT_SIGNAL_Packaging'',
           explanation = ''Packaging problem mentioned - preparation issue'',
           impact = 6\<rparr>] else []) @
      (if vague_complaint f then
         [\<lparr>factor = ''TEXT_SIGNAL_VagueComplaint'',
           explanation = ''Complaint is vague or lacks specifics - reduces credibility'',
           impact = - 8\<rparr>] else []) @
      (if customer_aggression f > 0.7 then
         [\<lparr>factor = ''TEXT_SIGNAL_Aggression'',
           explanation = ''High aggression level ('' @ py_format_pct 1 (customer_aggression f) @
                         '') - may indicate unreasonable expectations'',
           impact = - 5\<rparr>] else []) @
      (if evidence_strength f > 0.6 then
         [\<lparr>factor = ''TEXT_SIGNAL_EvidenceStrength'',
           explanation = ''Strong evidence in complaint text ('' @
                         py_format_pct 1 (evidence_strength f) @ '') - detailed description'',
           impact = 8\<rparr>] else []))"
    by (rule evaluate_text_features_independent)
next
  assume b: "length (digits_nat (nat \<bar>delivery_delay_min c\<bar>)) \<le> int_max_str_digits"
  obtain ds dr where dd: "evaluate_delivery_delay c = Inr (ds, dr)"
    using evaluate_delivery_delay_within [OF b] by blast
  show "\<exists>delay_score delay_reason.
           evaluate_delivery_delay c = Inr (delay_score, delay_reason) \<and>
           (TextFeatures.confidence f > 0 \<longrightarrow>
              (\<exists>s. evaluate st c (Some f) = Inr s \<and>
                 reasons s =
                   [snd (evaluate_complaint_severity c), delay_reason,
                    snd (evaluate_restaurant_error_rate c), snd (evaluate_customer_history c),
                    snd (evaluate_evidence c), snd (evaluate_order_value c)] @
                   snd (evaluate_text_features f) \<and>
                 score s =
                   of_int (fst (evaluate_complaint_severity c) + delay_score +
                           fst (evaluate_restaurant_error_rate c) +
                           fst (evaluate_customer_history c) +
                           fst (evaluate_evidence c) + fst (evaluate_order_value c)) +
                   fst (evaluate_text_features f))) \<and>
           (\<not> TextFeatures.confidence f > 0 \<longrightarrow>
              (\<exists>s. evaluate st c (Some f) = Inr s \<and>
                 reasons s =
                   [snd (evaluate_complaint_severity c), delay_reason,
                    snd (evaluate_restaurant_error_rate c), snd (evaluate_customer_history c),
                    snd (evaluate_evidence c), snd (evaluate_order_value c)] \<and>
                 score s =
                   of_int (fst (evaluate_complaint_severity c) + delay_score +
                           fst (evaluate_restaurant_error_rate c) +
                           fst (evaluate_customer_history c) +
                           fst (evaluate_evidence c) + fst (evaluate_order_value c))))"
    apply (rule exI [of _ ds], rule exI [of _ dr])
    using dd evaluate_case_shape [OF dd, of "Some f"] by (auto simp add: evaluate_def)
next
  assume "\<not> length (digits_nat (nat \<bar>delivery_delay_min c\<bar>)) \<le> int_max_str_digits"
  then show "evaluate st c (Some f) = Inl exceeds_limit"
    unfolding evaluate_def by (intro evaluate_case_raises evaluate_delivery_delay_beyond)
qed

theorem text_signal_contributions_witness:
  "length (digits_nat (nat \<bar>delivery_delay_min example_case\<bar>)) \<le> int_max_str_digits
   \<and> TextFeatures.confidence example_bundle > 0
   \<and> map_sum id (drop 6 \<circ> reasons)
        (evaluate policy_rules example_case (Some example_bundle)) =
      Inr [\<lparr>factor = ''TEXT_SIGNAL_Temperature'',
             explanation = ''Complaint mentions temperature issues - food quality concern'',
             impact = 8\<rparr>,
           \<lparr>factor = ''TEXT_SIGNAL_ItemIssue'',
             explanation = ''Complaint clearly describes missing item - strong validity'',
             impact = 12\<rparr>,
           \<lparr>factor = ''TEXT_SIGNAL_VagueComplaint'',
             explanation = ''Complaint is vague or lacks specifics - reduces credibility'',
             impact = - 8\<rparr>,
           \<lparr>factor = ''TEXT_SIGNAL_Aggression'',
             explanation = ''High aggression level (75.0%) - may indicate unreasonable expectations'',
             impact = - 5\<rparr>]
   \<and> map_sum id score (evaluate policy_rules example_case (Some example_bundle)) = Inr 102
   \<and> \<not> TextFeatures.confidence get_fallback_features > 0
   \<and> map_sum id (drop 6 \<circ> reasons)
        (evaluate policy_rules example_case (Some get_fallback_features)) = Inr []
   \<and> map_sum id score (evaluate policy_rules example_case (Some get_fallback_features)) = Inr 95"
  using text_signal_contributions [where f = example_bundle and c = example_case and st = policy_rules]
    text_signal_contributions
      [where f = get_fallback_features and c = example_case and st = policy_rules]
  by (simp add: policy_rules_def evaluate_def evaluate_case_def
        example_bundle_def get_fallback_features_def example_case_def
        evaluate_text_features_def fire_def evaluate_complaint_severity_def
        evaluate_delivery_delay_def evaluate_restaurant_error_rate_def
        evaluate_customer_history_def evaluate_evidence_def evaluate_order_value_def
        score_to_action_def RefundSuggestion_init_def REFUND_THRESHOLD_def py_round2_def
        py_format_pct_def py_format_f_def py_str_int_def int_max_str_digits_def
        round_half_even_def digits_nat.simps Let_def)

text \<open>
  C7, as stated, lets the text group run only when the TEXT_SIGNALS entry gates it in.
  With that entry disabled, the four signals of the example bundle still fire and the score
  of the example case is 95 + 8 + 12 - 8 - 5 = 102.
\<close>

theorem text_signals_not_gated_by_policy_counterexample:
  "map_of (snd (toggle_policy_rule policy_rules ''TEXT_SIGNALS'')) ''TEXT_SIGNALS'' =
     Some \<lparr>enabled = False, weight = 1, description = ''LLM text intelligence signals''\<rparr>
   \<and> map_sum id (map factor \<circ> reasons)
        (evaluate (snd (toggle_policy_rule policy_rules ''TEXT_SIGNALS'')) example_case
           (Some example_bundle)) =
      Inr [''Complaint Severity'', ''Delivery Delay'', ''Restaurant Reliability'',
           ''Customer History'', ''Evidence Quality'', ''Order Value'',
           ''TEXT_SIGNAL_Temperature'', ''TEXT_SIGNAL_ItemIssue'',
           ''TEXT_SIGNAL_VagueComplaint'', ''TEXT_SIGNAL_Aggression'']
   \<and> map_sum id score
        (evaluate (snd (toggle_policy_rule policy_rules ''TEXT_SIGNALS'')) example_case
           (Some example_bundle)) = Inr 102"
  by (simp add: policy_rules_def toggle_policy_rule_def evaluate_def evaluate_case_def
        example_bundle_def example_case_def evaluate_text_features_def fire_def
        evaluate_complaint_severity_def
        evaluate_delivery_delay_def evaluate_restaurant_error_rate_def
        evaluate_customer_history_def evaluate_evidence_def evaluate_order_value_def
        score_to_action_def RefundSuggestion_init_def REFUND_THRESHOLD_def py_round2_def
        py_str_int_def int_max_str_digits_def round_half_even_def digits_nat.simps Let_def)

section \<open>The score and the policy table\<close>

lemma evaluator_impacts:
  "impact (snd (evaluate_complaint_severity c)) = of_int (fst (evaluate_complaint_severity c))"
  "impact (snd (evaluate_restaurant_error_rate c)) = of_int (fst (evaluate_restaurant_error_rate c))"
  "impact (snd (evaluate_customer_history c)) = of_int (fst (evaluate_customer_history c))"
  "impact (snd (evaluate_evidence c)) = of_int (fst (evaluate_evidence c))"
  "impact (snd (evaluate_order_value c)) = of_int (fst (evaluate_order_value c))"
  by (simp_all add: evaluate_complaint_severity_def
        evaluate_restaurant_error_rate_def evaluate_customer_history_def evaluate_evidence_def
        evaluate_order_value_def Let_def split_beta)

lemma fire_sum:
  "sum_list (map impact (snd acc)) = fst acc \<Longrightarrow>
   sum_list (map impact (snd (if b then fire k fac ex acc else acc))) =
     fst (if b then fire k fac ex acc else acc)"
  by (simp add: fire_def)

lemma text_impacts_sum:
  "sum_list (map impact (snd (evaluate_text_features f))) = fst (evaluate_text_features f)"
  unfolding evaluate_text_features_def Let_def
  by (intro fire_sum) simp

lemma fire_known:
  "\<forall>r \<in> set (snd acc). rule_of_factor (factor r) \<noteq> None \<Longrightarrow>
   rule_of_factor fac \<noteq> None \<Longrightarrow>
   \<forall>r \<in> set (snd (if b then fire k fac ex acc else acc)). rule_of_factor (factor r) \<noteq> None"
  by (simp add: fire_def)

lemma text_factors_known:
  "\<forall>r \<in> set (snd (evaluate_text_features f)). rule_of_factor (factor r) \<noteq> None"
  unfolding evaluate_text_features_def Let_def
  by (intro fire_known) (simp_all add: rule_of_factor_def)

lemma rule_of_factor_range:
  "rule_of_factor x = Some code \<Longrightarrow> code \<in> fst ` set policy_rules"
  by (auto simp add: rule_of_factor_def policy_rules_def split: if_splits)

lemma weighted_impact_neutral:
  assumes "\<forall>code \<in> fst ` set policy_rules. \<exists>p. map_of st code = Some p \<and> enabled p \<and> weight p = 1"
    and "rule_of_factor (factor r) \<noteq> None"
  shows "weighted_impact st r = impact r"
proof -
  obtain code where c: "rule_of_factor (factor r) = Some code"
    using assms(2) by blast
  then have "code \<in> fst ` set policy_rules" by (rule rule_of_factor_range)
  then obtain p where "map_of st code = Some p" "enabled p" "weight p = 1"
    using assms(1) by blast
  then show ?thesis by (simp add: weighted_impact_def c)
qed

lemma policy_weighted_sum_neutral:
  assumes "\<forall>code \<in> fst ` set policy_rules. \<exists>p. map_of st code = Some p \<and> enabled p \<and> weight p = 1"
    and "\<forall>r \<in> set rs. rule_of_factor (factor r) \<noteq> None"
  shows "policy_weighted_sum st rs = sum_list (map impact rs)"
proof -
  have "map (weighted_impact st) rs = map impact rs"
    using assms weighted_impact_neutral by (intro map_cong) auto
  then show ?thesis by (simp only: policy_weighted_sum_def)
qed

lemma base_factors_known:
  "rule_of_factor (factor (snd (evaluate_complaint_severity c))) \<noteq> None"
  "rule_of_factor (factor (snd (evaluate_restaurant_error_rate c))) \<noteq> None"
  "rule_of_factor (factor (snd (evaluate_customer_history c))) \<noteq> None"
  "rule_of_factor (factor (snd (evaluate_evidence c))) \<noteq> None"
  "rule_of_factor (factor (snd (evaluate_order_value c))) \<noteq> None"
  by (simp_all add: evaluator_factors rule_of_factor_def)

lemma delay_factor_known:
  "evaluate_delivery_delay c = Inr (ds, dr) \<Longrightarrow> rule_of_factor (factor dr) \<noteq> None"
  using evaluate_delivery_delay_reason [of c ds dr] by (simp add: rule_of_factor_def)

lemma evaluate_case_Inr_delay:
  "evaluate_case c tf = Inr s \<Longrightarrow> \<exists>ds dr. evaluate_delivery_delay c = Inr (ds, dr)"
  using evaluate_case_raises [of c _ tf] by (cases "evaluate_delivery_delay c") auto

lemma evaluate_case_factors_known:
  assumes "evaluate_case c tf = Inr s"
  shows "\<forall>r \<in> set (reasons s). rule_of_factor (factor r) \<noteq> None"
proof -
  obtain ds dr where dd: "evaluate_delivery_delay c = Inr (ds, dr)"
    using evaluate_case_Inr_delay [OF assms] by blast
  show ?thesis
    using evaluate_case_shape [OF dd, of tf] assms text_factors_known base_factors_known [of c]
      delay_factor_known [OF dd]
    by (auto split: option.splits if_splits)
qed

lemma evaluate_case_score_sum:
  assumes "evaluate_case c tf = Inr s"
  shows "score s = sum_list (map impact (reasons s))"
proof -
  obtain ds dr where dd: "evaluate_delivery_delay c = Inr (ds, dr)"
    using evaluate_case_Inr_delay [OF assms] by blast
  show ?thesis
    using evaluate_case_shape [OF dd, of tf] assms evaluate_delivery_delay_reason [OF dd]
    by (auto simp add: evaluator_impacts text_impacts_sum split: option.splits)
qed

text \<open>
  C1 (amended). For every policy table, case and optional bundle, the score of the suggestion
  the engine returns is the plain sum of the impacts of the returned reasons; the table is
  not consulted. That sum is the policy-weighted sum when every rule of the initial table's
  keys is enabled with weight 1 in the table, as in the initial table itself. The engine
  returns a suggestion whenever the delay has at most 4300 digits.
\<close>

theorem score_is_sum_of_impacts:
  "(length (digits_nat (nat \<bar>delivery_delay_min c\<bar>)) \<le> int_max_str_digits \<longrightarrow>
      (\<exists>s. evaluate st c tf = Inr s))
   \<and> (evaluate st c tf = Inr s \<longrightarrow>
        score s = sum_list (map impact (reasons s)) \<and>
        ((\<forall>code \<in> fst ` set policy_rules.
            \<exists>p. map_of st code = Some p \<and> enabled p \<and> weight p = 1) \<longrightarrow>
         score s = policy_weighted_sum st (reasons s)))"
proof (intro conjI impI)
  assume "length (digits_nat (nat \<bar>delivery_delay_min c\<bar>)) \<le> int_max_str_digits"
  then obtain ds dr where "evaluate_delivery_delay c = Inr (ds, dr)"
    using evaluate_delivery_delay_within by blast
  then show "\<exists>s. evaluate st c tf = Inr s"
    using evaluate_case_returns [of c ds dr tf] by (auto simp add: evaluate_def)
next
  assume "evaluate st c tf = Inr s"
  then have s: "evaluate_case c tf = Inr s" by (simp add: evaluate_def)
  then show sum: "score s = sum_list (map impact (reasons s))"
    by (rule evaluate_case_score_sum)
  show "score s = policy_weighted_sum st (reasons s)"
    if "\<forall>code \<in> fst ` set policy_rules. \<exists>p. map_of st code = Some p \<and> enabled p \<and> weight p = 1"
    using policy_weighted_sum_neutral [OF that evaluate_case_factors_known [OF s]] sum by simp
qed

theorem score_is_sum_of_impacts_witness:
  "length (digits_nat (nat \<bar>delivery_delay_min example_case\<bar>)) \<le> int_max_str_digits
   \<and> map_sum id score (evaluate policy_rules example_case (Some example_bundle)) = Inr 102
   \<and> map_sum id (sum_list \<circ> map impact \<circ> reasons)
        (evaluate policy_rules example_case (Some example_bundle)) = Inr 102
   \<and> map_sum id (policy_weighted_sum policy_rules \<circ> reasons)
        (evaluate policy_rules example_case (Some example_bundle)) = Inr 102"
  using score_is_sum_of_impacts
    [where st = policy_rules and c = example_case and tf = "Some example_bundle"
       and s = "projr (evaluate policy_rules example_case (Some example_bundle))"]
  by (simp add: policy_rules_def evaluate_def evaluate_case_def
        policy_weighted_sum_def weighted_impact_def rule_of_factor_def
        example_bundle_def example_case_def evaluate_text_features_def fire_def
        evaluate_complaint_severity_def
        evaluate_delivery_delay_def evaluate_restaurant_error_rate_def
        evaluate_customer_history_def evaluate_evidence_def evaluate_order_value_def
        score_to_action_def RefundSuggestion_init_def REFUND_THRESHOLD_def py_round2_def
        py_str_int_def int_max_str_digits_def round_half_even_def digits_nat.simps Let_def)

text \<open>
  C1, as stated, equates the score with the policy-weighted sum under any table. After
  COMPLAINT_SEVERITY is toggled off the score of the example case is still 95 while the
  weighted sum is 60; after the weight of HIGH_DELAY is set to 0.5 the score is still 95
  while the weighted sum is 85.
\<close>

theorem score_ignores_policy_counterexample:
  "map_of (snd (toggle_policy_rule policy_rules ''COMPLAINT_SEVERITY'')) ''COMPLAINT_SEVERITY'' =
     Some \<lparr>enabled = False, weight = 1, description = ''Severity of complaint type''\<rparr>
   \<and> map_sum id score
        (evaluate (snd (toggle_policy_rule policy_rules ''COMPLAINT_SEVERITY'')) example_case None) =
      Inr 95
   \<and> map_sum id
        (policy_weighted_sum (snd (toggle_policy_rule policy_rules ''COMPLAINT_SEVERITY'')) \<circ> reasons)
        (evaluate (snd (toggle_policy_rule policy_rules ''COMPLAINT_SEVERITY'')) example_case None) =
      Inr 60
   \<and> map_of (snd (update_policy_weight policy_rules ''HIGH_DELAY'' 0.5)) ''HIGH_DELAY'' =
     Some \<lparr>enabled = True, weight = 0.5, description = ''High delivery delay penalty''\<rparr>
   \<and> map_sum id score
        (evaluate (snd (update_policy_weight policy_rules ''HIGH_DELAY'' 0.5)) example_case None) =
      Inr 95
   \<and> map_sum id
        (policy_weighted_sum (snd (update_policy_weight policy_rules ''HIGH_DELAY'' 0.5)) \<circ> reasons)
        (evaluate (snd (update_policy_weight policy_rules ''HIGH_DELAY'' 0.5)) example_case None) =
      Inr 85"
  by (simp add: policy_rules_def toggle_policy_rule_def update_policy_weight_def
        policy_weighted_sum_def weighted_impact_def rule_of_factor_def
        evaluate_def evaluate_case_def example_case_def
        evaluate_complaint_severity_def
        evaluate_delivery_delay_def evaluate_restaurant_error_rate_def
        evaluate_customer_history_def evaluate_evidence_def evaluate_order_value_def
        score_to_action_def RefundSuggestion_init_def REFUND_THRESHOLD_def py_round2_def
        py_str_int_def int_max_str_digits_def round_half_even_def digits_nat.simps Let_def)

section \<open>Toggling a rule\<close>

lemma toggle_twice:
  "snd (toggle_policy_rule (snd (toggle_policy_rule st rule_code)) rule_code) = st"
proof (cases "map_of st rule_code")
  case None
  then show ?thesis by (simp add: toggle_policy_rule_def)
next
  case (Some r)
  then show ?thesis
    by (simp add: toggle_policy_rule_def Let_def AList.update_conv' AList.update_triv)
qed

text \<open>
  C2 (amended). Toggling a known rule flips its enabled flag and nothing else, and a second
  toggle restores the table exactly. The engine does not read the table: the suggestion, and
  so the score, is the same before the toggle, after the rule is disabled and after it is
  enabled again.
\<close>

theorem toggle_does_not_change_score:
  "(rule_code \<in> fst ` set st \<longrightarrow>
      (\<exists>r st'. map_of st rule_code = Some r \<and>
         toggle_policy_rule st rule_code =
           (Inr (''Rule '' @ rule_code @ '' toggled'', \<not> enabled r), st') \<and>
         map_of st' = (map_of st)(rule_code \<mapsto> r\<lparr>enabled := \<not> enabled r\<rparr>) \<and>
         map fst st' = map fst st))
   \<and> snd (toggle_policy_rule (snd (toggle_policy_rule st rule_code)) rule_code) = st
   \<and> evaluate (snd (toggle_policy_rule st rule_code)) c tf = evaluate st c tf
   \<and> evaluate (snd (toggle_policy_rule (snd (toggle_policy_rule st rule_code)) rule_code)) c tf =
       evaluate st c tf"
proof (intro conjI impI)
  assume k: "rule_code \<in> fst ` set st"
  then obtain r where r: "map_of st rule_code = Some r"
    using map_of_eq_None_iff [of st rule_code] by auto
  then show "\<exists>r st'. map_of st rule_code = Some r \<and>
         toggle_policy_rule st rule_code =
           (Inr (''Rule '' @ rule_code @ '' toggled'', \<not> enabled r), st') \<and>
         map_of st' = (map_of st)(rule_code \<mapsto> r\<lparr>enabled := \<not> enabled r\<rparr>) \<and>
         map fst st' = map fst st"
    using k by (simp add: toggle_policy_rule_def Let_def AList.update_conv' AList.update_keys)
next
  show "snd (toggle_policy_rule (snd (toggle_policy_rule st rule_code)) rule_code) = st"
    by (rule toggle_twice)
qed (simp_all add: evaluate_def)

theorem toggle_does_not_change_score_witness:
  "''COMPLAINT_SEVERITY'' \<in> fst ` set policy_rules
   \<and> toggle_policy_rule policy_rules ''COMPLAINT_SEVERITY'' =
       (Inr (''Rule COMPLAINT_SEVERITY toggled'', False),
        AList.update ''COMPLAINT_SEVERITY''
          \<lparr>enabled = False, weight = 1, description = ''Severity of complaint type''\<rparr>
          policy_rules)
   \<and> snd (toggle_policy_rule (snd (toggle_policy_rule policy_rules ''COMPLAINT_SEVERITY''))
            ''COMPLAINT_SEVERITY'') = policy_rules
   \<and> map_sum id score (evaluate policy_rules example_case None) = Inr 95
   \<and> map_sum id score
        (evaluate (snd (toggle_policy_rule policy_rules ''COMPLAINT_SEVERITY'')) example_case None) =
      Inr 95"
  using toggle_does_not_change_score [of "''COMPLAINT_SEVERITY''" policy_rules example_case None]
  by (simp add: policy_rules_def toggle_policy_rule_def
        evaluate_def evaluate_case_def example_case_def
        evaluate_complaint_severity_def
        evaluate_delivery_delay_def evaluate_restaurant_error_rate_def
        evaluate_customer_history_def evaluate_evidence_def evaluate_order_value_def
        score_to_action_def RefundSuggestion_init_def REFUND_THRESHOLD_def py_round2_def
        py_str_int_def int_max_str_digits_def round_half_even_def digits_nat.simps Let_def)

text \<open>
  C2, as stated, removes the contribution of a disabled rule from the next score. With
  COMPLAINT_SEVERITY toggled off, the example case still reports the Complaint Severity
  reason with impact 35 and still scores 95, not 95 - 35.
\<close>

theorem disabled_rule_still_scored_counterexample:
  "fst (toggle_policy_rule policy_rules ''COMPLAINT_SEVERITY'') =
     Inr (''Rule COMPLAINT_SEVERITY toggled'', False)
   \<and> rule_of_factor ''Complaint Severity'' = Some ''COMPLAINT_SEVERITY''
   \<and> map_sum id (hd \<circ> reasons)
        (evaluate (snd (toggle_policy_rule policy_rules ''COMPLAINT_SEVERITY'')) example_case None) =
      Inr \<lparr>factor = ''Complaint Severity'',
            explanation = ''Order never arrived - critical issue'', impact = 35\<rparr>
   \<and> map_sum id score (evaluate policy_rules example_case None) = Inr 95
   \<and> map_sum id score
        (evaluate (snd (toggle_policy_rule policy_rules ''COMPLAINT_SEVERITY'')) example_case None) =
      Inr 95
   \<and> (95 :: rat) \<noteq> 95 - 35"
  by (simp add: policy_rules_def toggle_policy_rule_def rule_of_factor_def
        evaluate_def evaluate_case_def example_case_def
        evaluate_complaint_severity_def
        evaluate_delivery_delay_def evaluate_restaurant_error_rate_def
        evaluate_customer_history_def evaluate_evidence_def evaluate_order_value_def
        score_to_action_def RefundSuggestion_init_def REFUND_THRESHOLD_def py_round2_def
        py_str_int_def int_max_str_digits_def round_half_even_def digits_nat.simps Let_def)

section \<open>Setting a weight\<close>

lemma map_of_None_iff_not_key: "map_of st k = None \<longleftrightarrow> k \<notin> fst ` set st"
  by (simp add: map_of_eq_None_iff)

text \<open>
  C8. Setting a weight answers with status 404 when the rule code is not a key of the table;
  for a known rule code it answers with status 400 when the weight is below 0 or above 2;
  otherwise it succeeds and the table differs only in that rule's weight, which is the given
  value. On either failure the table is returned unchanged.
\<close>

theorem update_policy_weight_outcomes:
  "(rule_code \<notin> fst ` set st \<longrightarrow>
      update_policy_weight st rule_code w =
        (Inl (HTTPException 404 (''Rule '' @ rule_code @ '' not found'')), st))
   \<and> (rule_code \<in> fst ` set st \<and> (w < 0 \<or> w > 2) \<longrightarrow>
      update_policy_weight st rule_code w =
        (Inl (HTTPException 400 ''Weight must be between 0 and 2''), st))
   \<and> (rule_code \<in> fst ` set st \<and> 0 \<le> w \<and> w \<le> 2 \<longrightarrow>
      (\<exists>r st'. map_of st rule_code = Some r \<and>
         update_policy_weight st rule_code w =
           (Inr (''Rule '' @ rule_code @ '' weight updated'', w), st') \<and>
         map_of st' = (map_of st)(rule_code \<mapsto> r\<lparr>weight := w\<rparr>) \<and>
         map fst st' = map fst st))"
proof (cases "map_of st rule_code")
  case None
  then have "rule_code \<notin> fst ` set st"
    by (simp add: map_of_None_iff_not_key)
  then show ?thesis
    using None by (simp add: update_policy_weight_def)
next
  case (Some r)
  then have k: "rule_code \<in> fst ` set st"
    using map_of_None_iff_not_key [of st rule_code] by auto
  then show ?thesis
    using Some by (auto simp add: update_policy_weight_def AList.update_conv' AList.update_keys)
qed

theorem update_policy_weight_outcomes_witness:
  "update_policy_weight policy_rules ''SURGE'' 1 =
     (Inl (HTTPException 404 ''Rule SURGE not found''), policy_rules)
   \<and> update_policy_weight policy_rules ''HIGH_DELAY'' 2.5 =
     (Inl (HTTPException 400 ''Weight must be between 0 and 2''), policy_rules)
   \<and> update_policy_weight policy_rules ''HIGH_DELAY'' (- 1) =
     (Inl (HTTPException 400 ''Weight must be between 0 and 2''), policy_rules)
   \<and> map_of (snd (update_policy_weight policy_rules ''HIGH_DELAY'' 1.5)) ''HIGH_DELAY'' =
     Some \<lparr>enabled = True, weight = 1.5, description = ''High delivery delay penalty''\<rparr>
   \<and> map_of (snd (update_policy_weight policy_rules ''HIGH_DELAY'' 1.5)) ''ORDER_VALUE'' =
     map_of policy_rules ''ORDER_VALUE''"
  using update_policy_weight_outcomes [of "''SURGE''" policy_rules 1]
    update_policy_weight_outcomes [of "''HIGH_DELAY''" policy_rules "2.5"]
    update_policy_weight_outcomes [of "''HIGH_DELAY''" policy_rules "- 1"]
    update_policy_weight_outcomes [of "''HIGH_DELAY''" policy_rules "1.5"]
  by (simp add: policy_rules_def update_policy_weight_def)

section \<open>Presets\<close>

lemma update_present_keys:
  "map_of st k = Some r \<Longrightarrow> map fst (AList.update k v st) = map fst st"
proof -
  assume "map_of st k = Some r"
  then have "(k, r) \<in> set st" by (rule map_of_SomeD)
  then have "k \<in> set (map fst st)" by force
  then show ?thesis by (simp add: AList.update_keys)
qed

lemma set_weight_keys: "set_weight code w st = Inr st' \<Longrightarrow> map fst st' = map fst st"
  by (auto simp add: set_weight_def update_present_keys split: option.splits)

lemma set_enabled_keys: "set_enabled code b st = Inr st' \<Longrightarrow> map fst st' = map fst st"
  by (auto simp add: set_enabled_def update_present_keys split: option.splits)

lemma run_assignments_keys:
  "\<forall>f \<in> set fs. \<forall>s s'. f s = Inr s' \<longrightarrow> map fst s' = map fst s \<Longrightarrow>
   map fst (snd (run_assignments fs st)) = map fst st"
proof (induction fs arbitrary: st)
  case Nil
  show ?case by simp
next
  case (Cons f fs)
  show ?case
  proof (cases "f st")
    case (Inl e)
    then show ?thesis by simp
  next
    case (Inr st')
    have "map fst st' = map fst st" using Cons.prems Inr by simp
    moreover have "map fst (snd (run_assignments fs st')) = map fst st'"
      using Cons.IH [of st'] Cons.prems by simp
    ultimately show ?thesis using Inr by simp
  qed
qed

lemma snd_outcome:
  "snd (case p of (Some e, st') \<Rightarrow> (Inl e, st') | (None, st') \<Rightarrow> (Inr x, st')) = snd p"
  by (cases p) (simp split: option.split)

lemma apply_policy_preset_keys:
  "map fst (snd (apply_policy_preset st name)) = map fst st"
  unfolding apply_policy_preset_def Let_def
  by (auto simp add: snd_outcome set_weight_keys set_enabled_keys simp del: run_assignments.simps
        intro!: run_assignments_keys)


lemma apply_policy_preset_idem:
  "apply_policy_preset (snd (apply_policy_preset st name)) name = apply_policy_preset st name"
  by (auto simp add: apply_policy_preset_def Let_def set_weight_def set_enabled_def
        AList.update_conv' AList.update_triv split: option.splits)

lemma apply_policy_preset_frame:
  "lower name = ''strict'' \<Longrightarrow>
     code \<notin> {''CUSTOMER_RISK'', ''VAGUE_COMPLAINT'', ''PHOTO_EVIDENCE''} \<Longrightarrow>
     map_of (snd (apply_policy_preset st name)) code = map_of st code"
  "lower name = ''friendly'' \<Longrightarrow>
     code \<notin> {''CUSTOMER_RISK'', ''PHOTO_EVIDENCE'', ''VAGUE_COMPLAINT''} \<Longrightarrow>
     map_of (snd (apply_policy_preset st name)) code = map_of st code"
  "lower name = ''delay-tolerant'' \<Longrightarrow>
     code \<notin> {''HIGH_DELAY'', ''COMPLAINT_SEVERITY''} \<Longrightarrow>
     map_of (snd (apply_policy_preset st name)) code = map_of st code"
  by (auto simp add: apply_policy_preset_def Let_def set_weight_def set_enabled_def
        AList.update_conv' split: option.splits)

lemma apply_policy_preset_unknown:
  "lower name \<notin> {''strict'', ''friendly'', ''delay-tolerant''} \<Longrightarrow>
     apply_policy_preset st name =
       (Inl (HTTPException 400
               (''Unknown preset: '' @ lower name @
                ''. Use 'strict', 'friendly', or 'delay-tolerant'' @ [CHR 0x27])), st)"
  by (simp add: apply_policy_preset_def Let_def)

text \<open>
  C9. Applying a preset twice gives the same outcome and the same table as applying it once,
  for every table and every name. A preset keeps the keys of the table and their order, and
  leaves the entry of every rule it does not name as it was: \<open>strict\<close> and \<open>friendly\<close>
  name CUSTOMER_RISK, VAGUE_COMPLAINT and PHOTO_EVIDENCE, \<open>delay-tolerant\<close> names HIGH_DELAY
  and COMPLAINT_SEVERITY. A name that is none of the three presets once lowered is answered
  with status 400 and the table is unchanged.
\<close>

theorem apply_policy_preset_idempotent_and_local:
  "apply_policy_preset (snd (apply_policy_preset st name)) name = apply_policy_preset st name
   \<and> map fst (snd (apply_policy_preset st name)) = map fst st
   \<and> (lower name = ''strict'' \<and>
        code \<notin> {''CUSTOMER_RISK'', ''VAGUE_COMPLAINT'', ''PHOTO_EVIDENCE''} \<longrightarrow>
        map_of (snd (apply_policy_preset st name)) code = map_of st code)
   \<and> (lower name = ''friendly'' \<and>
        code \<notin> {''CUSTOMER_RISK'', ''PHOTO_EVIDENCE'', ''VAGUE_COMPLAINT''} \<longrightarrow>
        map_of (snd (apply_policy_preset st name)) code = map_of st code)
   \<and> (lower name = ''delay-tolerant'' \<and>
        code \<notin> {''HIGH_DELAY'', ''COMPLAINT_SEVERITY''} \<longrightarrow>
        map_of (snd (apply_policy_preset st name)) code = map_of st code)
   \<and> (lower name \<notin> {''strict'', ''friendly'', ''delay-tolerant''} \<longrightarrow>
        apply_policy_preset st name =
          (Inl (HTTPException 400
                  (''Unknown preset: '' @ lower name @
                   ''. Use 'strict', 'friendly', or 'delay-tolerant'' @ [CHR 0x27])), st))"
proof (intro conjI impI)
  show "apply_policy_preset (snd (apply_policy_preset st name)) name = apply_policy_preset st name"
    by (rule apply_policy_preset_idem)
  show "map fst (snd (apply_policy_preset st name)) = map fst st"
    by (rule apply_policy_preset_keys)
  show "map_of (snd (apply_policy_preset st name)) code = map_of st code"
    if "lower name = ''strict'' \<and>
        code \<notin> {''CUSTOMER_RISK'', ''VAGUE_COMPLAINT'', ''PHOTO_EVIDENCE''}"
    by (rule apply_policy_preset_frame(1)) (use that in blast)+
  show "map_of (snd (apply_policy_preset st name)) code = map_of st code"
    if "lower name = ''friendly'' \<and>
        code \<notin> {''CUSTOMER_RISK'', ''PHOTO_EVIDENCE'', ''VAGUE_COMPLAINT''}"
    by (rule apply_policy_preset_frame(2)) (use that in blast)+
  show "map_of (snd (apply_policy_preset st name)) code = map_of st code"
    if "lower name = ''delay-tolerant'' \<and> code \<notin> {''HIGH_DELAY'', ''COMPLAINT_SEVERITY''}"
    by (rule apply_policy_preset_frame(3)) (use that in blast)+
  show "apply_policy_preset st name =
          (Inl (HTTPException 400
                  (''Unknown preset: '' @ lower name @
                   ''. Use 'strict', 'friendly', or 'delay-tolerant'' @ [CHR 0x27])), st)"
    if "lower name \<notin> {''strict'', ''friendly'', ''delay-tolerant''}"
    using that by (rule apply_policy_preset_unknown)
qed

theorem apply_policy_preset_idempotent_and_local_witness:
  "lower ''STRICT'' = ''strict''
   \<and> ''ORDER_VALUE'' \<notin> {''CUSTOMER_RISK'', ''VAGUE_COMPLAINT'', ''PHOTO_EVIDENCE''}
   \<and> apply_policy_preset
        (snd (apply_policy_preset (snd (toggle_policy_rule policy_rules ''ORDER_VALUE'')) ''STRICT''))
        ''STRICT'' =
      apply_policy_preset (snd (toggle_policy_rule policy_rules ''ORDER_VALUE'')) ''STRICT''
   \<and> map_of (snd (apply_policy_preset (snd (toggle_policy_rule policy_rules ''ORDER_VALUE''))
                     ''STRICT'')) ''ORDER_VALUE'' =
      Some \<lparr>enabled = False, weight = 1, description = ''Order monetary value impact''\<rparr>
   \<and> map_of (snd (apply_policy_preset (snd (toggle_policy_rule policy_rules ''ORDER_VALUE''))
                     ''STRICT'')) ''CUSTOMER_RISK'' =
      Some \<lparr>enabled = True, weight = 1.5, description = ''Customer refund history risk''\<rparr>
   \<and> ''ORDER_VALUE'' \<notin> {''CUSTOMER_RISK'', ''PHOTO_EVIDENCE'', ''VAGUE_COMPLAINT''}
   \<and> map_of (snd (apply_policy_preset (snd (toggle_policy_rule policy_rules ''ORDER_VALUE''))
                     ''friendly'')) ''ORDER_VALUE'' =
      Some \<lparr>enabled = False, weight = 1, description = ''Order monetary value impact''\<rparr>
   \<and> ''ORDER_VALUE'' \<notin> {''HIGH_DELAY'', ''COMPLAINT_SEVERITY''}
   \<and> map_of (snd (apply_policy_preset (snd (toggle_policy_rule policy_rules ''ORDER_VALUE''))
                     ''delay-tolerant'')) ''ORDER_VALUE'' =
      Some \<lparr>enabled = False, weight = 1, description = ''Order monetary value impact''\<rparr>
   \<and> lower ''lenient'' \<notin> {''strict'', ''friendly'', ''delay-tolerant''}
   \<and> apply_policy_preset policy_rules ''lenient'' =
      (Inl (HTTPException 400
              (''Unknown preset: lenient. Use 'strict', 'friendly', or 'delay-tolerant'' @
               [CHR 0x27])), policy_rules)"
  using
    apply_policy_preset_idempotent_and_local
      [of "snd (toggle_policy_rule policy_rules ''ORDER_VALUE'')" "''STRICT''" "''ORDER_VALUE''"]
    apply_policy_preset_idempotent_and_local
      [of "snd (toggle_policy_rule policy_rules ''ORDER_VALUE'')" "''friendly''" "''ORDER_VALUE''"]
    apply_policy_preset_idempotent_and_local
      [of "snd (toggle_policy_rule policy_rules ''ORDER_VALUE'')" "''delay-tolerant''" "''ORDER_VALUE''"]
    apply_policy_preset_idempotent_and_local [of policy_rules "''lenient''" "''ORDER_VALUE''"]
  by (simp add: policy_rules_def toggle_policy_rule_def apply_policy_preset_def set_weight_def
        set_enabled_def lower_def lower_char_def Let_def)

end
